theory Spec2Isabelle
  imports Complex_Main
begin

section \<open>The model of \<^verbatim>\<open>rlassopy/models.py\<close>\<close>

text \<open>
  A shallow embedding of the classes \<^verbatim>\<open>RlassoBase\<close>, \<^verbatim>\<open>Rlasso\<close> and
  \<^verbatim>\<open>SqrtRlasso\<close>. Conventions:
  \<^item> numpy's float64 arithmetic is idealised as arithmetic on \<^typ>\<open>real\<close>; a vector is
    a list, a matrix the list of its rows;
  \<^item> an exception is the \<open>Inl\<close> branch of a sum type;
  \<^item> an attribute that is assigned only by some method (\<^verbatim>\<open>coef_\<close>, \<^verbatim>\<open>intercept_\<close>,
    ...) is an \<open>option\<close> field, \<open>None\<close> while the attribute does not exist;
  \<^item> a division by zero, which numpy evaluates to an infinity or a NaN and Python's own
    floats refuse, is not modelled (in HOL it is zero): the divisors \<open>n\<close>, \<open>p\<close> and
    \<open>log n\<close> are positive wherever \<^verbatim>\<open>fit\<close> reaches them with at least two samples, and a
    statement that depends on one of them says so in its hypotheses;
  \<^item> the libraries the module calls (scipy's \<^verbatim>\<open>pearsonr\<close> and \<^verbatim>\<open>norm.ppf\<close>, numpy's
    \<^verbatim>\<open>linalg.inv\<close>, \<^verbatim>\<open>random.normal\<close> and \<^verbatim>\<open>quantile\<close>, cvxpy's solver) are
    parameters, collected in the record \<open>oracles\<close>.
\<close>

subsection \<open>Vectors and matrices\<close>

type_synonym vec = "real list"
type_synonym mat = "real list list"

datatype error =
    TypeError
  | ValueError
  | AttributeError
  | NotFittedError
  | NotImplementedError
  | UnboundLocalError
  | LinAlgError
  | SolverError

definition nrows :: "mat \<Rightarrow> nat" where
  "nrows X = length X"

definition ncols :: "mat \<Rightarrow> nat" where
  "ncols X = (case X of [] \<Rightarrow> 0 | r # _ \<Rightarrow> length r)"

definition rectangular :: "mat \<Rightarrow> bool" where
  "rectangular X = list_all (\<lambda>r. length r = ncols X) X"

definition dot :: "vec \<Rightarrow> vec \<Rightarrow> real" where
  "dot u v = sum_list (map2 (*) u v)"

definition matvec :: "mat \<Rightarrow> vec \<Rightarrow> vec" where
  "matvec A v = map (\<lambda>row. dot row v) A"

definition matmul :: "mat \<Rightarrow> mat \<Rightarrow> mat" where
  "matmul A B = map (\<lambda>row. map (\<lambda>col. dot row col) (transpose B)) A"

definition vsub :: "vec \<Rightarrow> vec \<Rightarrow> vec" where
  "vsub u v = map2 (-) u v"

definition mean :: "vec \<Rightarrow> real" where
  "mean v = sum_list v / real (length v)"

definition sq_vec :: "vec \<Rightarrow> vec" where
  "sq_vec v = map (\<lambda>x. x\<^sup>2) v"

definition sq_mat :: "mat \<Rightarrow> mat" where
  "sq_mat X = map sq_vec X"

text \<open>\<^verbatim>\<open>np.mean(A, axis=0)\<close>: the mean of every column.\<close>

definition mean_axis0 :: "mat \<Rightarrow> vec" where
  "mean_axis0 A = map mean (transpose A)"

text \<open>\<^verbatim>\<open>np.diag(v)\<close> for a vector \<open>v\<close>: the square matrix with \<open>v\<close> on its diagonal.\<close>

definition diag :: "vec \<Rightarrow> mat" where
  "diag v = map (\<lambda>i. map (\<lambda>j. if i = j then v ! i else 0) [0..<length v]) [0..<length v]"

text \<open>
  \<^verbatim>\<open>np.einsum("ij, i -> j", A, w)\<close>: \<open>\<Sum>i. A[i,j] * w[i]\<close> for every column \<open>j\<close>; numpy
  raises a \<^verbatim>\<open>ValueError\<close> when \<open>w\<close> does not have one entry per row of \<open>A\<close>.
\<close>

definition einsum_ij_i_j :: "mat \<Rightarrow> vec \<Rightarrow> error + vec" where
  "einsum_ij_i_j A w =
     (if length w \<noteq> nrows A then Inl ValueError
      else Inr (map (\<lambda>col. dot col w) (transpose A)))"

text \<open>\<^verbatim>\<open>A[:, idx]\<close>: the columns of \<open>A\<close> listed in \<open>idx\<close>, in that order.\<close>

definition take_cols :: "mat \<Rightarrow> nat list \<Rightarrow> mat" where
  "take_cols A idx = map (\<lambda>row. map (\<lambda>j. row ! j) idx) A"

text \<open>\<^verbatim>\<open>xs[s:]\<close> for a Python integer \<open>s\<close>: a negative \<open>s\<close> counts from the end.\<close>

definition slice_from :: "int \<Rightarrow> 'a list \<Rightarrow> 'a list" where
  "slice_from s xs =
     (if s < 0 then drop (nat (int (length xs) + s)) xs else drop (nat s) xs)"

text \<open>
  \<^verbatim>\<open>np.argsort(r)\<close>: the indices of \<open>r\<close> in ascending order of their values. Equal
  values are kept in index order here (numpy's default sort does not promise an order
  among them).
\<close>

definition argsort :: "vec \<Rightarrow> nat list" where
  "argsort r = sort_key (\<lambda>k. r ! k) [0..<length r]"

text \<open>
  \<^verbatim>\<open>np.isclose(a, b, atol=atol)\<close> with numpy's default \<^verbatim>\<open>rtol=1e-05\<close>, and
  \<^verbatim>\<open>np.allclose\<close> on two matrices of the same shape.
\<close>

definition isclose :: "real \<Rightarrow> real \<Rightarrow> real \<Rightarrow> bool" where
  "isclose a b atol = (\<bar>a - b\<bar> \<le> atol + (1 / 100000) * \<bar>b\<bar>)"

definition allclose :: "mat \<Rightarrow> mat \<Rightarrow> real \<Rightarrow> bool" where
  "allclose A B atol =
     list_all (\<lambda>(ra, rb). list_all (\<lambda>(a, b). isclose a b atol) (zip ra rb)) (zip A B)"

subsection \<open>The estimator object\<close>

text \<open>
  The attributes of an instance of \<^verbatim>\<open>RlassoBase\<close>. The first eleven are assigned by
  \<^verbatim>\<open>__init__\<close> (\<^verbatim>\<open>solver_opts\<close> is only forwarded to the solver and is part of the
  solver oracle); \<^verbatim>\<open>coef_\<close>, \<^verbatim>\<open>lambd_\<close> and \<^verbatim>\<open>psi_\<close> are assigned by \<^verbatim>\<open>fit\<close>,
  \<^verbatim>\<open>n_iter_\<close> by \<^verbatim>\<open>SqrtRlasso._rlasso_algorithm\<close> (to \<^verbatim>\<open>None\<close> or to a count), and
  \<^verbatim>\<open>intercept_\<close> is read by \<^verbatim>\<open>predict\<close>. A name cannot end in an underscore
  here, so the field of the attribute \<^verbatim>\<open>coef_\<close> is \<open>coef_attr\<close>, and likewise for
  the others.
\<close>

record estimator =
  fit_intercept :: bool
  post :: bool
  cov_type :: string
  x_dependent :: bool
  n_corr :: int
  max_iter :: int
  n_sim :: int
  c :: real
  gamma :: "real option"
  zero_tol :: real
  convergence_tol :: real
  coef_attr :: "vec option"
  lambd_attr :: "real option"
  psi_attr :: "mat option"
  intercept_attr :: "real option"
  n_iter_attr :: "nat option option"

text \<open>
  A constructor call \<^verbatim>\<open>Rlasso(k1=v1, k2=v2, ...)\<close> is the list of its keyword
  arguments. \<^verbatim>\<open>RlassoBase.__init__\<close> is keyword-only and is inherited unchanged by
  \<^verbatim>\<open>Rlasso\<close> and \<^verbatim>\<open>SqrtRlasso\<close>; Python raises a \<^verbatim>\<open>TypeError\<close> for a keyword the
  signature does not declare. The flags are only ever tested (\<^verbatim>\<open>if self.post:\<close>), so a
  flag is read at its Python truth value; the other options are read at the type of
  their defaults, and a value of another type is outside this model (the default stands
  in for it).
\<close>

datatype pyval = PyBool bool | PyInt int | PyFloat real | PyStr string | PyNone

definition init_keywords :: "string list" where
  "init_keywords =
     [''fit_intercept'', ''post'', ''cov_type'', ''x_dependent'', ''n_corr'', ''max_iter'',
      ''n_sim'', ''c'', ''gamma'', ''zero_tol'', ''convergence_tol'', ''solver_opts'']"

fun truth :: "pyval \<Rightarrow> bool" where
  "truth (PyBool b) = b"
| "truth (PyInt i) = (i \<noteq> 0)"
| "truth (PyFloat r) = (r \<noteq> 0)"
| "truth (PyStr s) = (s \<noteq> [])"
| "truth PyNone = False"

definition kw_flag :: "(string \<times> pyval) list \<Rightarrow> string \<Rightarrow> bool \<Rightarrow> bool" where
  "kw_flag kws k d = (case map_of kws k of None \<Rightarrow> d | Some v \<Rightarrow> truth v)"

definition kw_int :: "(string \<times> pyval) list \<Rightarrow> string \<Rightarrow> int \<Rightarrow> int" where
  "kw_int kws k d = (case map_of kws k of Some (PyInt i) \<Rightarrow> i | _ \<Rightarrow> d)"

definition kw_float :: "(string \<times> pyval) list \<Rightarrow> string \<Rightarrow> real \<Rightarrow> real" where
  "kw_float kws k d =
     (case map_of kws k of Some (PyFloat r) \<Rightarrow> r | Some (PyInt i) \<Rightarrow> real_of_int i | _ \<Rightarrow> d)"

definition kw_float_opt :: "(string \<times> pyval) list \<Rightarrow> string \<Rightarrow> real option" where
  "kw_float_opt kws k =
     (case map_of kws k of
        Some (PyFloat r) \<Rightarrow> Some r
      | Some (PyInt i) \<Rightarrow> Some (real_of_int i)
      | _ \<Rightarrow> None)"

definition kw_str :: "(string \<times> pyval) list \<Rightarrow> string \<Rightarrow> string \<Rightarrow> string" where
  "kw_str kws k d = (case map_of kws k of Some (PyStr s) \<Rightarrow> s | _ \<Rightarrow> d)"

text \<open>The assignments of \<^verbatim>\<open>RlassoBase.__init__\<close>, with the defaults of its signature.\<close>

definition init_attributes :: "(string \<times> pyval) list \<Rightarrow> estimator" where
  "init_attributes kws =
     \<lparr> fit_intercept = kw_flag kws ''fit_intercept'' True,
       post = kw_flag kws ''post'' True,
       cov_type = kw_str kws ''cov_type'' ''nonrobust'',
       x_dependent = kw_flag kws ''x_dependent'' False,
       n_corr = kw_int kws ''n_corr'' 5,
       max_iter = kw_int kws ''max_iter'' 2,
       n_sim = kw_int kws ''n_sim'' 5000,
       c = kw_float kws ''c'' (11 / 10),
       gamma = kw_float_opt kws ''gamma'',
       zero_tol = kw_float kws ''zero_tol'' (1 / 10000),
       convergence_tol = kw_float kws ''convergence_tol'' (1 / 10000),
       coef_attr = None,
       lambd_attr = None,
       psi_attr = None,
       intercept_attr = None,
       n_iter_attr = None \<rparr>"

definition RlassoBase_init :: "(string \<times> pyval) list \<Rightarrow> error + estimator" where
  "RlassoBase_init kws =
     (if list_all (\<lambda>(k, v). k \<in> set init_keywords) kws then Inr (init_attributes kws)
      else Inl TypeError)"

subsection \<open>Penalty loadings\<close>

text \<open>\<^verbatim>\<open>np.sqrt(np.mean(X**2, axis=0))\<close>, the loadings of the homoscedastic case.\<close>

definition nonrobust_psi :: "mat \<Rightarrow> vec" where
  "nonrobust_psi X = map sqrt (mean_axis0 (sq_mat X))"

text \<open>\<^verbatim>\<open>Rlasso._penalty_loadings(self, X, n, resid=None)\<close>.\<close>

definition Rlasso_penalty_loadings ::
  "estimator \<Rightarrow> mat \<Rightarrow> nat \<Rightarrow> vec option \<Rightarrow> error + mat" where
  "Rlasso_penalty_loadings self X n resid =
     (if cov_type self = ''robust'' \<and> resid \<noteq> None then
        (case einsum_ij_i_j (sq_mat X) (sq_vec (the resid)) of
           Inl e \<Rightarrow> Inl e
         | Inr Xe2 \<Rightarrow> Inr (diag (map (\<lambda>v. sqrt (v / real n)) Xe2)))
      else if cov_type self = ''cluster'' then Inl NotImplementedError
      else Inr (diag (nonrobust_psi X)))"

text \<open>\<^verbatim>\<open>SqrtRlasso._penalty_loadings(self, X, n, *, resid=None)\<close>.\<close>

definition SqrtRlasso_penalty_loadings ::
  "estimator \<Rightarrow> mat \<Rightarrow> nat \<Rightarrow> vec option \<Rightarrow> error + mat" where
  "SqrtRlasso_penalty_loadings self X n resid =
     (if cov_type self = ''nonrobust'' then Inr (diag (nonrobust_psi X))
      else if cov_type self = ''robust'' \<and> resid \<noteq> None then
        (case einsum_ij_i_j (sq_mat X) (sq_vec (the resid)) of
           Inl e \<Rightarrow> Inl e
         | Inr Xe2 \<Rightarrow>
             Inr (diag (map2 max
                    (map (\<lambda>v. sqrt (v / real n)) Xe2)
                    (map (\<lambda>v. sqrt (v / sum_list (sq_vec (the resid)))) Xe2))))
      else Inl NotImplementedError)"

subsection \<open>The libraries, as parameters\<close>

text \<open>
  What the module observes of a call \<^verbatim>\<open>prob.solve(**self.solver_opts)\<close>: either the
  call raises (cvxpy's \<^verbatim>\<open>SolverError\<close>, say), or it returns, leaving a status on the
  problem and a value (\<^verbatim>\<open>None\<close> or an array) in \<^verbatim>\<open>beta.value\<close>.
\<close>

datatype solver_status = Optimal | Infeasible | Unbounded | SolverFailed

datatype solver_outcome = Raises error | Returns solver_status "vec option"

text \<open>
  \<^item> \<open>pearsonr x y\<close>: \<^verbatim>\<open>st.pearsonr(x, y)[0]\<close>, which raises for fewer than two samples;
  \<^item> \<open>norm_ppf q\<close>: \<^verbatim>\<open>st.norm.ppf(q)\<close>;
  \<^item> \<open>linalg_inv A\<close>: \<^verbatim>\<open>np.linalg.inv(A)\<close>, which raises \<^verbatim>\<open>LinAlgError\<close> for a singular
    matrix and otherwise returns a matrix of the shape of \<open>A\<close>;
  \<^item> \<open>random_normal k n p\<close>: the \<open>k\<close>-th matrix \<^verbatim>\<open>np.random.normal(size=(n, p))\<close> that
    numpy's global generator hands out;
  \<^item> \<open>quantile v q\<close>: \<^verbatim>\<open>np.quantile(v, q)\<close>;
  \<^item> \<open>cvx_solve f p\<close>: minimising the objective \<open>f\<close> over a \<^verbatim>\<open>cp.Variable(p)\<close> with
    the estimator's \<^verbatim>\<open>solver_opts\<close>.
\<close>

record oracles =
  pearsonr :: "vec \<Rightarrow> vec \<Rightarrow> error + real"
  norm_ppf :: "real \<Rightarrow> real"
  linalg_inv :: "mat \<Rightarrow> error + mat"
  random_normal :: "nat \<Rightarrow> nat \<Rightarrow> nat \<Rightarrow> mat"
  quantile :: "vec \<Rightarrow> real \<Rightarrow> real"
  cvx_solve :: "(vec \<Rightarrow> real) \<Rightarrow> nat \<Rightarrow> solver_outcome"

text \<open>A loop of fallible calls: the first exception ends it.\<close>

fun mapE :: "('a \<Rightarrow> error + 'b) \<Rightarrow> 'a list \<Rightarrow> error + 'b list" where
  "mapE f [] = Inr []"
| "mapE f (x # xs) =
     (case f x of
        Inl e \<Rightarrow> Inl e
      | Inr v \<Rightarrow> (case mapE f xs of Inl e \<Rightarrow> Inl e | Inr vs \<Rightarrow> Inr (v # vs)))"

subsection \<open>Penalty level\<close>

text \<open>
  The first two lines of both \<^verbatim>\<open>_penalty_level\<close> methods:
  \<^verbatim>\<open>if self.gamma is None: self.gamma = 0.1 / np.log(n)\<close>. The assignment is to the
  estimator object, so the value stays for every later call.
\<close>

definition default_gamma :: "estimator \<Rightarrow> nat \<Rightarrow> estimator" where
  "default_gamma self n =
     (case gamma self of
        None \<Rightarrow> self\<lparr>gamma := Some ((1 / 10) / ln (real n))\<rparr>
      | Some g \<Rightarrow> self)"

text \<open>
  \<^verbatim>\<open>X @ psi\<close> where either operand may be the default \<^verbatim>\<open>None\<close> of the signature.
  Python raises a \<^verbatim>\<open>TypeError\<close> for \<^verbatim>\<open>None @ None\<close>; numpy takes a single \<^verbatim>\<open>None\<close>
  for a zero-dimensional array and raises a \<^verbatim>\<open>ValueError\<close>, as it does for two
  matrices whose shapes do not fit.
\<close>

definition matmul_opt :: "mat option \<Rightarrow> mat option \<Rightarrow> error + mat" where
  "matmul_opt A B =
     (case A of
        None \<Rightarrow> (case B of None \<Rightarrow> Inl TypeError | Some b \<Rightarrow> Inl ValueError)
      | Some a \<Rightarrow>
          (case B of
             None \<Rightarrow> Inl ValueError
           | Some b \<Rightarrow> if ncols a = nrows b then Inr (matmul a b) else Inl ValueError))"

text \<open>\<^verbatim>\<open>np.max(v)\<close>, which raises a \<^verbatim>\<open>ValueError\<close> on an empty array.\<close>

definition np_max :: "vec \<Rightarrow> error + real" where
  "np_max v = (case v of [] \<Rightarrow> Inl ValueError | x # xs \<Rightarrow> Inr (fold max xs x))"

text \<open>
  The simulation loop of the x-dependent penalty level, for the draws \<open>d, d+1, ...\<close> of
  the generator: \<^verbatim>\<open>sims[r] = n * np.max(2 * np.abs(np.mean(Xpsi * g, axis=0)))\<close>.
\<close>

definition simulate :: "oracles \<Rightarrow> nat \<Rightarrow> nat \<Rightarrow> mat \<Rightarrow> nat \<Rightarrow> nat \<Rightarrow> error + vec" where
  "simulate orc d k Xpsi n p =
     mapE (\<lambda>r.
        case np_max (map (\<lambda>m. 2 * \<bar>m\<bar>)
               (mean_axis0 (map2 (map2 (*)) Xpsi (random_normal orc (d + r) n p)))) of
          Inl e \<Rightarrow> Inl e
        | Inr m \<Rightarrow> Inr (real n * m))
       [0..<k]"

text \<open>
  \<^verbatim>\<open>Rlasso._penalty_level(self, n, p, *, sigma_hat=None, X=None, psi=None)\<close>. The
  argument \<open>d\<close> counts the matrices drawn from the generator so far; the result is the
  penalty level, the estimator (its \<^verbatim>\<open>gamma\<close> possibly assigned) and the new count.
  In the x-dependent branch that is not \<^verbatim>\<open>"nonrobust"\<close>, the source reaches
  \<^verbatim>\<open>print(f"Lambda: {lambd}")\<close> with \<^verbatim>\<open>lambd\<close> never assigned.
\<close>

definition Rlasso_penalty_level ::
  "oracles \<Rightarrow> estimator \<Rightarrow> nat \<Rightarrow> nat \<Rightarrow> nat \<Rightarrow> real option \<Rightarrow> mat option \<Rightarrow> mat option
     \<Rightarrow> error + (real \<times> estimator \<times> nat)" where
  "Rlasso_penalty_level orc self0 d n p sigma_hat X psi =
     (let self = default_gamma self0 n in
      if x_dependent self then
        (if n_sim self < 0 then Inl ValueError
         else
           (case matmul_opt X psi of
              Inl e \<Rightarrow> Inl e
            | Inr Xpsi \<Rightarrow>
                if cov_type self = ''nonrobust'' then
                  (case simulate orc d (nat (n_sim self)) Xpsi n p of
                     Inl e \<Rightarrow> Inl e
                   | Inr sims \<Rightarrow>
                       (case sigma_hat of
                          None \<Rightarrow> Inl TypeError
                        | Some s \<Rightarrow>
                            Inr (c self * s * quantile orc sims (1 - the (gamma self)),
                                 self, d + nat (n_sim self))))
                else Inl UnboundLocalError))
      else
        (let prob = norm_ppf orc (1 - the (gamma self) / (2 * real p)) in
         if cov_type self = ''nonrobust'' \<and> sigma_hat \<noteq> None then
           Inr (2 * c self * the sigma_hat * sqrt (real n) * prob, self, d)
         else Inr (2 * c self * sqrt (real n) * prob, self, d)))"

text \<open>\<^verbatim>\<open>SqrtRlasso._penalty_level(self, n, p)\<close>.\<close>

definition SqrtRlasso_penalty_level ::
  "oracles \<Rightarrow> estimator \<Rightarrow> nat \<Rightarrow> nat \<Rightarrow> error + (real \<times> estimator)" where
  "SqrtRlasso_penalty_level orc self0 n p =
     (let self = default_gamma self0 n;
          prob = norm_ppf orc (1 - the (gamma self) / (2 * real p)) in
      if x_dependent self then Inl NotImplementedError
      else Inr (c self * sqrt (real n) * prob, self))"

subsection \<open>Criterion functions and the convex solve\<close>

definition sum_squares :: "vec \<Rightarrow> real" where
  "sum_squares v = sum_list (sq_vec v)"

definition norm1 :: "vec \<Rightarrow> real" where
  "norm1 v = sum_list (map abs v)"

definition norm2 :: "vec \<Rightarrow> real" where
  "norm2 v = sqrt (sum_squares v)"

text \<open>\<^verbatim>\<open>Rlasso._criterion_function(self, X, y, beta, lambd, psi, n)\<close>.\<close>

definition Rlasso_criterion_function ::
  "mat \<Rightarrow> vec \<Rightarrow> vec \<Rightarrow> real \<Rightarrow> mat \<Rightarrow> nat \<Rightarrow> real" where
  "Rlasso_criterion_function X y beta lambd psi n =
     (let loss = sum_squares (vsub y (matvec X beta)) / real n;
          reg = (lambd / real n) * norm1 (matvec psi beta)
      in loss + reg)"

text \<open>\<^verbatim>\<open>SqrtRlasso._criterion_function(self, X, y, beta, lambd, psi, n)\<close>.\<close>

definition SqrtRlasso_criterion_function ::
  "mat \<Rightarrow> vec \<Rightarrow> vec \<Rightarrow> real \<Rightarrow> mat \<Rightarrow> nat \<Rightarrow> real" where
  "SqrtRlasso_criterion_function X y beta lambd psi n =
     (let loss = norm2 (vsub y (matvec X beta)) / sqrt (real n);
          reg = (lambd / real n) * norm1 (matvec psi beta)
      in loss + reg)"

text \<open>\<^verbatim>\<open>beta[np.where(np.abs(beta) < self.zero_tol)] = 0.0\<close>.\<close>

definition hard_threshold :: "real \<Rightarrow> vec \<Rightarrow> vec" where
  "hard_threshold tol beta = map (\<lambda>v. if \<bar>v\<bar> < tol then 0 else v) beta"

text \<open>\<^verbatim>\<open>np.where(beta != 0)[0]\<close>.\<close>

definition nonzero_idx :: "vec \<Rightarrow> nat list" where
  "nonzero_idx beta = filter (\<lambda>j. beta ! j \<noteq> 0) [0..<length beta]"

text \<open>\<^verbatim>\<open>beta[idx] = vals\<close>, for as many values as indices.\<close>

definition scatter :: "vec \<Rightarrow> nat list \<Rightarrow> vec \<Rightarrow> vec" where
  "scatter beta idx vals = fold (\<lambda>(j, v) b. b[j := v]) (zip idx vals) beta"

text \<open>
  The first part of \<^verbatim>\<open>RlassoBase._cvxpy_solve\<close>, down to the rounding of small
  coefficients. The status of the problem is never read. When the solver leaves
  \<^verbatim>\<open>None\<close> in \<^verbatim>\<open>beta.value\<close>, \<^verbatim>\<open>np.abs(beta)\<close> raises a \<^verbatim>\<open>TypeError\<close>. The criterion
  is the method \<^verbatim>\<open>_criterion_function\<close> of the subclass.
\<close>

definition solve_and_round ::
  "oracles \<Rightarrow> estimator \<Rightarrow> (mat \<Rightarrow> vec \<Rightarrow> vec \<Rightarrow> real \<Rightarrow> mat \<Rightarrow> nat \<Rightarrow> real)
     \<Rightarrow> mat \<Rightarrow> vec \<Rightarrow> real \<Rightarrow> mat \<Rightarrow> nat \<Rightarrow> error + vec" where
  "solve_and_round orc self criterion X y lambd psi n =
     (case cvx_solve orc (\<lambda>beta. criterion X y beta lambd psi n) (ncols X) of
        Raises e \<Rightarrow> Inl e
      | Returns status None \<Rightarrow> Inl TypeError
      | Returns status (Some beta) \<Rightarrow> Inr (hard_threshold (zero_tol self) beta))"

text \<open>The post-lasso refit, the body of \<^verbatim>\<open>if self.post:\<close> in \<^verbatim>\<open>_cvxpy_solve\<close>.\<close>

definition post_ols :: "oracles \<Rightarrow> vec \<Rightarrow> mat \<Rightarrow> vec \<Rightarrow> error + vec" where
  "post_ols orc beta X y =
     (let idx = nonzero_idx beta;
          X_sub = take_cols X idx
      in case linalg_inv orc (matmul (transpose X_sub) X_sub) of
           Inl e \<Rightarrow> Inl e
         | Inr Ainv \<Rightarrow> Inr (scatter beta idx (matvec (matmul Ainv (transpose X_sub)) y)))"

text \<open>
  \<^verbatim>\<open>RlassoBase._cvxpy_solve(self, X, y, lambd, psi, n)\<close>. Next to the coefficients the
  model returns the steps the call went through, a log that the source does not keep.
\<close>

datatype event = ConvexSolve | PostOLS

definition RlassoBase_cvxpy_solve ::
  "oracles \<Rightarrow> estimator \<Rightarrow> (mat \<Rightarrow> vec \<Rightarrow> vec \<Rightarrow> real \<Rightarrow> mat \<Rightarrow> nat \<Rightarrow> real)
     \<Rightarrow> mat \<Rightarrow> vec \<Rightarrow> real \<Rightarrow> mat \<Rightarrow> nat \<Rightarrow> error + (vec \<times> event list)" where
  "RlassoBase_cvxpy_solve orc self criterion X y lambd psi n =
     (case solve_and_round orc self criterion X y lambd psi n of
        Inl e \<Rightarrow> Inl e
      | Inr beta \<Rightarrow>
          if post self then
            (case post_ols orc beta X y of
               Inl e \<Rightarrow> Inl e
             | Inr beta' \<Rightarrow> Inr (beta', [ConvexSolve, PostOLS]))
          else Inr (beta, [ConvexSolve]))"

subsection \<open>The iteration\<close>

text \<open>
  What a run of \<^verbatim>\<open>_rlasso_algorithm\<close> carries besides its local arrays: the estimator
  object (\<^verbatim>\<open>_penalty_level\<close> may assign \<^verbatim>\<open>self.gamma\<close>), the number of matrices drawn
  from the generator, the log of solver steps, and the counter \<^verbatim>\<open>n_iter\<close>.
\<close>

record run =
  est :: estimator
  draws :: nat
  events :: "event list"
  n_iter :: nat

text \<open>\<^verbatim>\<open>X[:, k]\<close>.\<close>

definition column :: "mat \<Rightarrow> nat \<Rightarrow> vec" where
  "column X k = map (\<lambda>row. row ! k) X"

text \<open>
  The pilot estimate, the same lines in both classes: the absolute Pearson correlation
  of every column with \<open>y\<close>, the columns \<^verbatim>\<open>np.argsort(r)[-self.n_corr:]\<close>, their
  closed-form OLS coefficients and the residuals of that fit.
\<close>

definition pilot_fit :: "oracles \<Rightarrow> estimator \<Rightarrow> mat \<Rightarrow> vec \<Rightarrow> error + (vec \<times> vec)" where
  "pilot_fit orc self X y =
     (case mapE (\<lambda>k. case pearsonr orc (column X k) y of
                        Inl e \<Rightarrow> Inl e
                      | Inr v \<Rightarrow> Inr \<bar>v\<bar>) [0..<ncols X] of
        Inl e \<Rightarrow> Inl e
      | Inr r \<Rightarrow>
          (let X_top = take_cols X (slice_from (- n_corr self) (argsort r))
           in case linalg_inv orc (matmul (transpose X_top) X_top) of
                Inl e \<Rightarrow> Inl e
              | Inr Ainv \<Rightarrow>
                  (let beta0 = matvec (matmul Ainv (transpose X_top)) y
                   in Inr (beta0, vsub y (matvec X_top beta0)))))"

text \<open>
  The loop of the \<^verbatim>\<open>"nonrobust"\<close> branch of \<^verbatim>\<open>Rlasso._rlasso_algorithm\<close>, with the
  number of iterations that \<^verbatim>\<open>range(self.max_iter)\<close> still has to offer. The loop
  variables are \<^verbatim>\<open>beta0\<close>, \<^verbatim>\<open>resid0\<close> and \<^verbatim>\<open>lambd0\<close>.
\<close>

fun nonrobust_loop ::
  "oracles \<Rightarrow> mat \<Rightarrow> vec \<Rightarrow> nat \<Rightarrow> nat \<Rightarrow> mat \<Rightarrow> nat \<Rightarrow> vec \<times> vec \<times> real \<times> run
     \<Rightarrow> error + (vec \<times> vec \<times> real \<times> run)" where
  "nonrobust_loop orc X y n p psi 0 s = Inr s"
| "nonrobust_loop orc X y n p psi (Suc k) (beta0, resid0, lambd0, r) =
     (let sigmahat = sqrt (mean (sq_vec resid0))
      in case (if x_dependent (est r)
               then Rlasso_penalty_level orc (est r) (draws r) n p
                      (Some sigmahat) (Some X) (Some psi)
               else Rlasso_penalty_level orc (est r) (draws r) n p
                      (Some sigmahat) None None) of
           Inl e \<Rightarrow> Inl e
         | Inr (lambd, self, d) \<Rightarrow>
             if isclose lambd lambd0 (convergence_tol self)
             then Inr (beta0, resid0, lambd0, r\<lparr>est := self, draws := d\<rparr>)
             else
               (case RlassoBase_cvxpy_solve orc self Rlasso_criterion_function
                       X y lambd psi n of
                  Inl e \<Rightarrow> Inl e
                | Inr (beta, ev) \<Rightarrow>
                    nonrobust_loop orc X y n p psi k
                      (beta, vsub y (matvec X beta), lambd,
                       r\<lparr>est := self, draws := d, events := events r @ ev,
                         n_iter := n_iter r + 1\<rparr>)))"

text \<open>
  The loop of the other branch, which both classes share but for the loadings and
  criterion methods they call. The loop variables are \<^verbatim>\<open>beta0\<close>, \<^verbatim>\<open>resid0\<close> and
  \<^verbatim>\<open>psi0\<close>.
\<close>

fun robust_loop ::
  "oracles \<Rightarrow> (estimator \<Rightarrow> mat \<Rightarrow> nat \<Rightarrow> vec option \<Rightarrow> error + mat)
     \<Rightarrow> (mat \<Rightarrow> vec \<Rightarrow> vec \<Rightarrow> real \<Rightarrow> mat \<Rightarrow> nat \<Rightarrow> real)
     \<Rightarrow> mat \<Rightarrow> vec \<Rightarrow> nat \<Rightarrow> real \<Rightarrow> nat \<Rightarrow> vec \<times> vec \<times> mat \<times> run
     \<Rightarrow> error + (vec \<times> vec \<times> mat \<times> run)" where
  "robust_loop orc loadings criterion X y n lambd 0 s = Inr s"
| "robust_loop orc loadings criterion X y n lambd (Suc k) (beta0, resid0, psi0, r) =
     (case loadings (est r) X n (Some resid0) of
        Inl e \<Rightarrow> Inl e
      | Inr psi \<Rightarrow>
          if allclose psi psi0 (convergence_tol (est r))
          then Inr (beta0, resid0, psi0, r)
          else
            (case RlassoBase_cvxpy_solve orc (est r) criterion X y lambd psi n of
               Inl e \<Rightarrow> Inl e
             | Inr (beta, ev) \<Rightarrow>
                 robust_loop orc loadings criterion X y n lambd k
                   (beta, vsub y (matvec X beta), psi,
                    r\<lparr>events := events r @ ev, n_iter := n_iter r + 1\<rparr>)))"

text \<open>
  \<^verbatim>\<open>Rlasso._rlasso_algorithm(self, X, y)\<close>, started with \<open>d\<close> matrices drawn so far. It
  returns \<^verbatim>\<open>(beta, lambd, psi)\<close>, and the model adds the run.
\<close>

definition Rlasso_rlasso_algorithm ::
  "oracles \<Rightarrow> estimator \<Rightarrow> nat \<Rightarrow> mat \<Rightarrow> vec \<Rightarrow> error + ((vec \<times> real \<times> mat) \<times> run)" where
  "Rlasso_rlasso_algorithm orc self d X y =
     (let n = nrows X; p = ncols X
      in case pilot_fit orc self X y of
           Inl e \<Rightarrow> Inl e
         | Inr (beta0, resid0) \<Rightarrow>
             if cov_type self = ''nonrobust'' then
               (case Rlasso_penalty_loadings self X n None of
                  Inl e \<Rightarrow> Inl e
                | Inr psi \<Rightarrow>
                    (case nonrobust_loop orc X y n p psi (nat (max_iter self))
                            (beta0, resid0, 0,
                             \<lparr>est = self, draws = d, events = [], n_iter = 0\<rparr>) of
                       Inl e \<Rightarrow> Inl e
                     | Inr (beta, resid, lambd, r) \<Rightarrow> Inr ((beta, lambd, psi), r)))
             else
               (case Rlasso_penalty_level orc self d n p None None None of
                  Inl e \<Rightarrow> Inl e
                | Inr (lambd, self', d') \<Rightarrow>
                    (case robust_loop orc Rlasso_penalty_loadings Rlasso_criterion_function
                            X y n lambd (nat (max_iter self'))
                            (beta0, resid0, diag (replicate p 1),
                             \<lparr>est = self', draws = d', events = [], n_iter = 0\<rparr>) of
                       Inl e \<Rightarrow> Inl e
                     | Inr (beta, resid, psi, r) \<Rightarrow> Inr ((beta, lambd, psi), r))))"

text \<open>
  \<^verbatim>\<open>SqrtRlasso._rlasso_algorithm(self, X, y)\<close>. The counter is the attribute
  \<^verbatim>\<open>self.n_iter_\<close> here: \<^verbatim>\<open>None\<close> in the \<^verbatim>\<open>"nonrobust"\<close> branch, the number of solves
  in the other.
\<close>

definition SqrtRlasso_rlasso_algorithm ::
  "oracles \<Rightarrow> estimator \<Rightarrow> nat \<Rightarrow> mat \<Rightarrow> vec \<Rightarrow> error + ((vec \<times> real \<times> mat) \<times> run)" where
  "SqrtRlasso_rlasso_algorithm orc self d X y =
     (let n = nrows X; p = ncols X
      in if cov_type self = ''nonrobust'' then
           (case SqrtRlasso_penalty_level orc (self\<lparr>n_iter_attr := Some None\<rparr>) n p of
              Inl e \<Rightarrow> Inl e
            | Inr (lambd, self') \<Rightarrow>
                (case SqrtRlasso_penalty_loadings self' X n None of
                   Inl e \<Rightarrow> Inl e
                 | Inr psi \<Rightarrow>
                     (case RlassoBase_cvxpy_solve orc self' SqrtRlasso_criterion_function
                             X y lambd psi n of
                        Inl e \<Rightarrow> Inl e
                      | Inr (beta, ev) \<Rightarrow>
                          Inr ((beta, lambd, psi),
                               \<lparr>est = self', draws = d, events = ev, n_iter = 0\<rparr>))))
         else
           (case pilot_fit orc self X y of
              Inl e \<Rightarrow> Inl e
            | Inr (beta0, resid0) \<Rightarrow>
                (case SqrtRlasso_penalty_level orc (self\<lparr>n_iter_attr := Some (Some 0)\<rparr>) n p of
                   Inl e \<Rightarrow> Inl e
                 | Inr (lambd, self') \<Rightarrow>
                     (case robust_loop orc SqrtRlasso_penalty_loadings
                             SqrtRlasso_criterion_function X y n lambd (nat (max_iter self'))
                             (beta0, resid0, diag (replicate p 1),
                              \<lparr>est = self', draws = d, events = [], n_iter = 0\<rparr>) of
                        Inl e \<Rightarrow> Inl e
                      | Inr (beta, resid, psi, r) \<Rightarrow>
                          Inr ((beta, lambd, psi),
                               r\<lparr>est := (est r)\<lparr>n_iter_attr := Some (Some (n_iter r))\<rparr>\<rparr>)))))"

subsection \<open>fit and predict\<close>

text \<open>
  \<^verbatim>\<open>check_array(X)\<close> and \<^verbatim>\<open>check_X_y(X, y)\<close> of scikit-learn, on reals: \<open>X\<close> is
  two-dimensional with at least one sample and one feature, and \<open>y\<close> has one entry per
  sample; anything else is a \<^verbatim>\<open>ValueError\<close>.
\<close>

definition check_array :: "mat \<Rightarrow> error + mat" where
  "check_array X =
     (if X \<noteq> [] \<and> 0 < ncols X \<and> rectangular X then Inr X else Inl ValueError)"

definition check_X_y :: "mat \<Rightarrow> vec \<Rightarrow> error + (mat \<times> vec)" where
  "check_X_y X y =
     (case check_array X of
        Inl e \<Rightarrow> Inl e
      | Inr X' \<Rightarrow> if length y = nrows X' then Inr (X', y) else Inl ValueError)"

text \<open>\<^verbatim>\<open>X - X.mean(axis=0)\<close> and \<^verbatim>\<open>y - y.mean()\<close>.\<close>

definition center_columns :: "mat \<Rightarrow> mat" where
  "center_columns X = map (\<lambda>row. vsub row (mean_axis0 X)) X"

definition center :: "vec \<Rightarrow> vec" where
  "center y = map (\<lambda>v. v - mean y) y"

text \<open>
  \<^verbatim>\<open>RlassoBase.fit(self, X, y)\<close>; the algorithm is the method \<^verbatim>\<open>_rlasso_algorithm\<close> of
  the subclass. The three assignments at its end are the only ones it makes.
\<close>

definition RlassoBase_fit ::
  "(estimator \<Rightarrow> nat \<Rightarrow> mat \<Rightarrow> vec \<Rightarrow> error + ((vec \<times> real \<times> mat) \<times> run))
     \<Rightarrow> estimator \<Rightarrow> nat \<Rightarrow> mat \<Rightarrow> vec \<Rightarrow> error + run" where
  "RlassoBase_fit algorithm self d X y =
     (case check_X_y X y of
        Inl e \<Rightarrow> Inl e
      | Inr (X1, y1) \<Rightarrow>
          (case algorithm self d
                  (if fit_intercept self then center_columns X1 else X1)
                  (if fit_intercept self then center y1 else y1) of
             Inl e \<Rightarrow> Inl e
           | Inr ((beta, lambd, psi), r) \<Rightarrow>
               Inr (r\<lparr>est := (est r)\<lparr>coef_attr := Some beta, lambd_attr := Some lambd,
                                    psi_attr := Some psi\<rparr>\<rparr>)))"

definition Rlasso_fit :: "oracles \<Rightarrow> estimator \<Rightarrow> nat \<Rightarrow> mat \<Rightarrow> vec \<Rightarrow> error + run" where
  "Rlasso_fit orc = RlassoBase_fit (Rlasso_rlasso_algorithm orc)"

definition SqrtRlasso_fit :: "oracles \<Rightarrow> estimator \<Rightarrow> nat \<Rightarrow> mat \<Rightarrow> vec \<Rightarrow> error + run" where
  "SqrtRlasso_fit orc = RlassoBase_fit (SqrtRlasso_rlasso_algorithm orc)"

text \<open>
  \<^verbatim>\<open>RlassoBase.predict(self, X)\<close>: \<^verbatim>\<open>check_is_fitted(self, "coef_")\<close> raises
  \<^verbatim>\<open>NotFittedError\<close> without the attribute \<^verbatim>\<open>coef_\<close>, \<^verbatim>\<open>X @ self.coef_\<close> raises a
  \<^verbatim>\<open>ValueError\<close> when the shapes do not fit, and reading \<^verbatim>\<open>self.intercept_\<close> raises
  an \<^verbatim>\<open>AttributeError\<close> when no such attribute exists.
\<close>

definition RlassoBase_predict :: "estimator \<Rightarrow> mat \<Rightarrow> error + vec" where
  "RlassoBase_predict self X =
     (case coef_attr self of
        None \<Rightarrow> Inl NotFittedError
      | Some beta \<Rightarrow>
          (case check_array X of
             Inl e \<Rightarrow> Inl e
           | Inr X1 \<Rightarrow>
               if ncols X1 \<noteq> length beta then Inl ValueError
               else
                 (let pred = matvec X1 beta
                  in if fit_intercept self then
                       (case intercept_attr self of
                          None \<Rightarrow> Inl AttributeError
                        | Some b \<Rightarrow> Inr (map (\<lambda>v. v + b) pred))
                     else Inr pred)))"

subsection \<open>Notions used in the statements\<close>

text \<open>What one returning call of \<^verbatim>\<open>_cvxpy_solve\<close> adds to the log.\<close>

definition step_events :: "estimator \<Rightarrow> event list" where
  "step_events self = (if post self then [ConvexSolve, PostOLS] else [ConvexSolve])"

text \<open>A solver outcome with its status replaced by \<^verbatim>\<open>optimal\<close>.\<close>

fun forget_status :: "solver_outcome \<Rightarrow> solver_outcome" where
  "forget_status (Raises e) = Raises e"
| "forget_status (Returns status v) = Returns Optimal v"

subsection \<open>A worked example\<close>

text \<open>
  Four samples of two orthogonal, centred features, and the response
  \<open>y = 8 x\<^sub>1 + 3 x\<^sub>2 + 4 e\<close> with \<open>e = (1, -1, -1, 1)\<close> orthogonal to both. The
  libraries are given by their values on this data: the Pearson correlations of the
  two columns with \<open>y\<close> are \<open>8 / sqrt 89\<close> and \<open>3 / sqrt 89\<close>; every matrix that is
  inverted is \<open>4 I\<close>, whose inverse is itself divided by \<open>16\<close>; the objective of the
  standard variant with identity loadings is minimised at
  \<open>(8 - lambd / 8, 0)\<close> for \<open>24 \<le> lambd \<le> 64\<close>, and \<open>lambd\<close> is read off the
  objective as \<open>4 (f (1, 0) - 74)\<close>; the normal quantile is taken to be \<open>2\<close>.
\<close>

definition ex_X :: mat where
  "ex_X = [[1, 1], [1, -1], [-1, 1], [-1, -1]]"

definition ex_y :: vec where
  "ex_y = [15, 1, -9, -7]"

definition ex_oracles :: oracles where
  "ex_oracles =
     \<lparr> pearsonr = (\<lambda>x v. Inr (if x = [1, 1, -1, -1] then 8 / sqrt 89 else 3 / sqrt 89)),
       norm_ppf = (\<lambda>q. 2),
       linalg_inv = (\<lambda>A. Inr (map (map (\<lambda>a. a / 16)) A)),
       random_normal = (\<lambda>k n p. replicate n (replicate p 0)),
       quantile = (\<lambda>v q. 0),
       cvx_solve = (\<lambda>f p. Returns Optimal (Some [8 - (f [1, 0] - 74) / 2, 0])) \<rparr>"

text \<open>The estimator \<^verbatim>\<open>Rlasso()\<close> with every default, and the run of its fit on the example.\<close>

definition ex_est :: estimator where
  "ex_est = init_attributes []"

definition ex_run :: run where
  "ex_run =
     \<lparr> est = ex_est\<lparr>gamma := Some ((1 / 10) / ln 4), coef_attr := Some [8, 0],
                    lambd_attr := Some 44, psi_attr := Some [[1, 0], [0, 1]]\<rparr>,
       draws = 0,
       events = [ConvexSolve, PostOLS, ConvexSolve, PostOLS],
       n_iter = 2 \<rparr>"

text \<open>The estimator \<^verbatim>\<open>Rlasso(max_iter=0)\<close> and the run of its fit on the example.\<close>

definition ex_est0 :: estimator where
  "ex_est0 = init_attributes [(''max_iter'', PyInt 0)]"

definition ex_run0 :: run where
  "ex_run0 =
     \<lparr> est = ex_est0\<lparr>coef_attr := Some [3, 8], lambd_attr := Some 0,
                     psi_attr := Some [[1, 0], [0, 1]]\<rparr>,
       draws = 0, events = [], n_iter = 0 \<rparr>"

text \<open>
  The same libraries with a solver that returns \<open>(0, 0)\<close>, the minimiser of the objective
  of the square-root variant on the example with identity loadings and
  \<open>lambd = 22 / 5\<close>: the objective is
  \<open>sqrt ((b\<^sub>1 - 8)\<^sup>2 + (b\<^sub>2 - 3)\<^sup>2 + 16) + 1.1 (\<bar>b\<^sub>1\<bar> + \<bar>b\<^sub>2\<bar>)\<close>, whose first term has a
  gradient shorter than one.
\<close>

definition ex_sqrt_oracles :: oracles where
  "ex_sqrt_oracles = ex_oracles\<lparr>cvx_solve := \<lambda>f p. Returns Optimal (Some [0, 0])\<rparr>"

text \<open>
  The same libraries with a solver that returns \<open>(5 / 2, - 10\<^sup>-\<^sup>5)\<close>: a solution whose
  second entry is not zero but smaller than the default \<^verbatim>\<open>zero_tol\<close> of \<open>10\<^sup>-\<^sup>4\<close>,
  as an interior-point solver leaves it. The estimator \<^verbatim>\<open>Rlasso(post=False)\<close>.
\<close>

definition ex_tiny_oracles :: oracles where
  "ex_tiny_oracles = ex_oracles\<lparr>cvx_solve := \<lambda>f p. Returns Optimal (Some [5 / 2, - (1 / 100000)])\<rparr>"

definition ex_est_nopost :: estimator where
  "ex_est_nopost = init_attributes [(''post'', PyBool False)]"

section \<open>Auxiliary facts\<close>

subsection \<open>Facts about rounding and keywords\<close>

lemma hard_threshold_small:
  "j < length (hard_threshold tol v) \<Longrightarrow> \<bar>hard_threshold tol v ! j\<bar> < tol
     \<Longrightarrow> hard_threshold tol v ! j = 0"
  by (simp add: hard_threshold_def split: if_splits)

lemma solve_and_round_cases:
  assumes "solve_and_round orc self criterion X y lambd psi n = Inr beta"
  obtains status v where
    "cvx_solve orc (\<lambda>b. criterion X y b lambd psi n) (ncols X) = Returns status (Some v)"
    "beta = hard_threshold (zero_tol self) v"
  using assms unfolding solve_and_round_def
  by (auto split: solver_outcome.splits option.splits)

lemma sqrt_not_declared: "''sqrt'' \<notin> set init_keywords"
  by (simp add: init_keywords_def)

subsection \<open>Facts about the runs\<close>

lemma default_gamma_fields:
  "fit_intercept (default_gamma self n) = fit_intercept self"
  "post (default_gamma self n) = post self"
  "cov_type (default_gamma self n) = cov_type self"
  "x_dependent (default_gamma self n) = x_dependent self"
  "n_corr (default_gamma self n) = n_corr self"
  "max_iter (default_gamma self n) = max_iter self"
  "n_sim (default_gamma self n) = n_sim self"
  "c (default_gamma self n) = c self"
  "zero_tol (default_gamma self n) = zero_tol self"
  "convergence_tol (default_gamma self n) = convergence_tol self"
  "coef_attr (default_gamma self n) = coef_attr self"
  "lambd_attr (default_gamma self n) = lambd_attr self"
  "psi_attr (default_gamma self n) = psi_attr self"
  "intercept_attr (default_gamma self n) = intercept_attr self"
  "n_iter_attr (default_gamma self n) = n_iter_attr self"
  by (simp_all add: default_gamma_def split: option.splits)

lemma default_gamma_idem: "default_gamma (default_gamma self n) m = default_gamma self n"
  by (simp add: default_gamma_def split: option.splits)

lemma default_gamma_gamma:
  "gamma (default_gamma self n) = Some (case gamma self of None \<Rightarrow> (1 / 10) / ln (real n) | Some g \<Rightarrow> g)"
  by (simp add: default_gamma_def split: option.splits)

lemma Rlasso_penalty_level_est:
  assumes "Rlasso_penalty_level orc self d n p sigma_hat X psi = Inr (lambd, self', d')"
  shows "self' = default_gamma self n"
  using assms
  by (auto simp: Rlasso_penalty_level_def Let_def split: if_splits sum.splits option.splits)

lemma SqrtRlasso_penalty_level_est:
  assumes "SqrtRlasso_penalty_level orc self n p = Inr (lambd, self')"
  shows "self' = default_gamma self n"
  using assms
  by (auto simp: SqrtRlasso_penalty_level_def Let_def split: if_splits)

lemma cvxpy_solve_events:
  assumes "RlassoBase_cvxpy_solve orc self criterion X y lambd psi n = Inr (b, ev)"
  shows "ev = (if post self then [ConvexSolve, PostOLS] else [ConvexSolve])"
  using assms
  by (auto simp: RlassoBase_cvxpy_solve_def split: sum.splits if_splits)

lemma step_events_default_gamma: "step_events (default_gamma self n) = step_events self"
  by (simp add: step_events_def default_gamma_fields)

lemma nonrobust_loop_run:
  assumes "nonrobust_loop orc X y n p psi k (beta0, resid0, lambd0, r) = Inr (beta, resid, lambd, r')"
  shows "(est r' = est r \<or> est r' = default_gamma (est r) n)
       \<and> (0 < k \<longrightarrow> est r' = default_gamma (est r) n)
       \<and> n_iter r \<le> n_iter r' \<and> n_iter r' \<le> n_iter r + k
       \<and> events r' = events r @ concat (replicate (n_iter r' - n_iter r) (step_events (est r)))"
  using assms
proof (induction k arbitrary: beta0 resid0 lambd0 r)
  case 0
  then show ?case by simp
next
  case (Suc k)
  let ?s = "sqrt (mean (sq_vec resid0))"
  let ?lv = "if x_dependent (est r)
             then Rlasso_penalty_level orc (est r) (draws r) n p (Some ?s) (Some X) (Some psi)
             else Rlasso_penalty_level orc (est r) (draws r) n p (Some ?s) None None"
  from Suc.prems obtain l s' d' where lv: "?lv = Inr (l, s', d')"
    by (cases ?lv) (auto simp: Let_def)
  then have s': "s' = default_gamma (est r) n"
    by (auto split: if_splits dest: Rlasso_penalty_level_est)
  show ?case
  proof (cases "isclose l lambd0 (convergence_tol s')")
    case True
    with Suc.prems lv have "r' = r\<lparr>est := s', draws := d'\<rparr>"
      by (simp add: Let_def)
    then show ?thesis by (simp add: s')
  next
    case False
    with Suc.prems lv obtain b ev where
      cs: "RlassoBase_cvxpy_solve orc s' Rlasso_criterion_function X y l psi n = Inr (b, ev)"
      and rec: "nonrobust_loop orc X y n p psi k
                  (b, vsub y (matvec X b), l,
                   r\<lparr>est := s', draws := d', events := events r @ ev, n_iter := n_iter r + 1\<rparr>)
                = Inr (beta, resid, lambd, r')"
      by (auto simp: Let_def split: sum.splits)
    from cvxpy_solve_events [OF cs] have ev: "ev = step_events (est r)"
      by (simp add: step_events_def s' default_gamma_fields)
    from Suc.IH [OF rec] have
      e: "est r' = s' \<or> est r' = default_gamma s' n"
      and lo: "n_iter r + 1 \<le> n_iter r'" and hi: "n_iter r' \<le> n_iter r + 1 + k"
      and evs: "events r' = (events r @ ev) @ concat (replicate (n_iter r' - (n_iter r + 1)) (step_events s'))"
      by simp_all
    from e have e': "est r' = default_gamma (est r) n"
      by (auto simp: s' default_gamma_idem)
    from lo have "n_iter r' - n_iter r = Suc (n_iter r' - (n_iter r + 1))" by simp
    with evs have "events r' = events r @ concat (replicate (n_iter r' - n_iter r) (step_events (est r)))"
      by (simp add: ev s' step_events_default_gamma)
    with e' lo hi show ?thesis by simp
  qed
qed

lemma robust_loop_run:
  assumes "robust_loop orc loadings criterion X y n lambd k (beta0, resid0, psi0, r) = Inr (beta, resid, psi, r')"
  shows "est r' = est r \<and> draws r' = draws r
       \<and> n_iter r \<le> n_iter r' \<and> n_iter r' \<le> n_iter r + k
       \<and> events r' = events r @ concat (replicate (n_iter r' - n_iter r) (step_events (est r)))"
  using assms
proof (induction k arbitrary: beta0 resid0 psi0 r)
  case 0
  then show ?case by simp
next
  case (Suc k)
  from Suc.prems obtain ps where ld: "loadings (est r) X n (Some resid0) = Inr ps"
    by (cases "loadings (est r) X n (Some resid0)") auto
  show ?case
  proof (cases "allclose ps psi0 (convergence_tol (est r))")
    case True
    with Suc.prems ld have "r' = r" by simp
    then show ?thesis by simp
  next
    case False
    with Suc.prems ld obtain b ev where
      cs: "RlassoBase_cvxpy_solve orc (est r) criterion X y lambd ps n = Inr (b, ev)"
      and rec: "robust_loop orc loadings criterion X y n lambd k
                  (b, vsub y (matvec X b), ps,
                   r\<lparr>events := events r @ ev, n_iter := n_iter r + 1\<rparr>)
                = Inr (beta, resid, psi, r')"
      by (auto split: sum.splits)
    from cvxpy_solve_events [OF cs] have ev: "ev = step_events (est r)"
      by (simp add: step_events_def)
    from Suc.IH [OF rec] have
      e: "est r' = est r" "draws r' = draws r"
      and lo: "n_iter r + 1 \<le> n_iter r'" and hi: "n_iter r' \<le> n_iter r + 1 + k"
      and evs: "events r' = (events r @ ev) @ concat (replicate (n_iter r' - (n_iter r + 1)) (step_events (est r)))"
      by simp_all
    from lo have "n_iter r' - n_iter r = Suc (n_iter r' - (n_iter r + 1))" by simp
    with evs have "events r' = events r @ concat (replicate (n_iter r' - n_iter r) (step_events (est r)))"
      by (simp add: ev)
    with e lo hi show ?thesis by simp
  qed
qed

lemma Rlasso_algorithm_run:
  assumes "Rlasso_rlasso_algorithm orc self d X y = Inr (res, r)"
  shows "(est r = self \<or> est r = default_gamma self (nrows X))
       \<and> n_iter r \<le> nat (max_iter self)
       \<and> events r = concat (replicate (n_iter r) (step_events self))"
proof (cases "cov_type self = ''nonrobust''")
  case True
  with assms obtain b0 r0 ps b rs l where
    "nonrobust_loop orc X y (nrows X) (ncols X) ps (nat (max_iter self))
       (b0, r0, 0, \<lparr>est = self, draws = d, events = [], n_iter = 0\<rparr>) = Inr (b, rs, l, r)"
    by (auto simp: Rlasso_rlasso_algorithm_def Let_def split: sum.splits prod.splits)
  from nonrobust_loop_run [OF this] show ?thesis by simp
next
  case False
  with assms obtain b0 r0 l s' d' b rs ps where
    lv: "Rlasso_penalty_level orc self d (nrows X) (ncols X) None None None = Inr (l, s', d')"
    and lp: "robust_loop orc Rlasso_penalty_loadings Rlasso_criterion_function X y (nrows X) l
       (nat (max_iter s')) (b0, r0, diag (replicate (ncols X) 1),
        \<lparr>est = s', draws = d', events = [], n_iter = 0\<rparr>) = Inr (b, rs, ps, r)"
    by (auto simp: Rlasso_rlasso_algorithm_def Let_def split: sum.splits prod.splits)
  from Rlasso_penalty_level_est [OF lv] have s': "s' = default_gamma self (nrows X)" .
  from robust_loop_run [OF lp] show ?thesis
    by (simp add: s' default_gamma_fields step_events_default_gamma)
qed

subsection \<open>The example, evaluated\<close>

lemma ex_center: "center_columns ex_X = ex_X" "center ex_y = ex_y"
  by (simp_all add: center_columns_def ex_X_def ex_y_def mean_axis0_def transpose.simps mean_def vsub_def center_def)

lemma ex_check: "check_X_y ex_X ex_y = Inr (ex_X, ex_y)"
  by (simp add: check_X_y_def check_array_def ex_X_def ex_y_def ncols_def nrows_def rectangular_def)

lemma ex_argsort: "argsort [8 / sqrt 89, 3 / sqrt 89] = [1, 0]"
  by (simp add: argsort_def upt_rec divide_le_cancel)

lemma ex_r: "mapE (\<lambda>k. case pearsonr ex_oracles (column ex_X k) ex_y of
                        Inl e \<Rightarrow> Inl e
                      | Inr v \<Rightarrow> Inr \<bar>v\<bar>) [0..<ncols ex_X] = Inr [8 / sqrt 89, 3 / sqrt 89]"
  by (simp add: ex_X_def ncols_def upt_rec column_def ex_oracles_def)

lemma ex_X_top:
  assumes "n_corr self = 5"
  shows "take_cols ex_X (slice_from (- n_corr self) (argsort [8 / sqrt 89, 3 / sqrt 89]))
       = [[1, 1], [-1, 1], [1, -1], [-1, -1]]"
  by (simp add: assms ex_argsort slice_from_def take_cols_def ex_X_def)

lemma ex_transpose_top:
  "transpose [[1, 1], [-1, 1], [1, -1], [-1, -1::real]] = [[1, -1, 1, -1], [1, 1, -1, -1]]"
  "transpose [[1, -1, 1, -1], [1, 1, -1, -1::real]] = [[1, 1], [-1, 1], [1, -1], [-1, -1]]"
  by (simp_all add: transpose.simps)

lemma ex_pilot:
  assumes "n_corr self = 5"
  shows "pilot_fit ex_oracles self ex_X ex_y = Inr ([3, 8], [4, -4, -4, 4])"
  unfolding pilot_fit_def ex_r sum.case ex_X_top [OF assms] Let_def ex_transpose_top
  by (simp add: ex_y_def ex_oracles_def matmul_def matvec_def dot_def vsub_def ex_transpose_top)

lemma ex_est_fields:
  "fit_intercept ex_est" "post ex_est" "cov_type ex_est = ''nonrobust''" "\<not> x_dependent ex_est"
  "n_corr ex_est = 5" "max_iter ex_est = 2" "c ex_est = 11 / 10" "gamma ex_est = None"
  "zero_tol ex_est = 1 / 10000" "convergence_tol ex_est = 1 / 10000"
  "intercept_attr ex_est = None"
  by (simp_all add: ex_est_def init_attributes_def kw_flag_def kw_str_def kw_int_def kw_float_def
        kw_float_opt_def)

lemma ex_psi:
  assumes "cov_type self = ''nonrobust''"
  shows "Rlasso_penalty_loadings self ex_X 4 None = Inr [[1, 0], [0, 1]]"
  by (simp add: Rlasso_penalty_loadings_def assms nonrobust_psi_def mean_axis0_def sq_mat_def
        sq_vec_def ex_X_def transpose.simps mean_def diag_def upt_rec)

lemma ex_level:
  assumes "cov_type self = ''nonrobust''" "\<not> x_dependent self" "c self = 11 / 10"
  shows "Rlasso_penalty_level ex_oracles self d 4 2 (Some s) None None
       = Inr (44 / 5 * s, default_gamma self 4, d)"
  by (simp add: Rlasso_penalty_level_def Let_def default_gamma_fields assms ex_oracles_def)

lemma ex_solve:
  assumes "post self" "zero_tol self = 1 / 10000" "0 \<le> lambd" "lambd \<le> 60"
  shows "RlassoBase_cvxpy_solve ex_oracles self Rlasso_criterion_function ex_X ex_y lambd
           [[1, 0], [0, 1]] 4 = Inr ([8, 0], [ConvexSolve, PostOLS])"
proof -
  have f: "Rlasso_criterion_function ex_X ex_y [1, 0] lambd [[1, 0], [0, 1]] 4 = 74 + lambd / 4"
    by (simp add: Rlasso_criterion_function_def ex_X_def ex_y_def sum_squares_def sq_vec_def
          vsub_def matvec_def dot_def norm1_def)
  have sr: "solve_and_round ex_oracles self Rlasso_criterion_function ex_X ex_y lambd
              [[1, 0], [0, 1]] 4 = Inr [8 - lambd / 8, 0]"
    using assms(3,4)
    by (simp add: solve_and_round_def ex_oracles_def f hard_threshold_def assms(2))
  have nz: "nonzero_idx [8 - lambd / 8, 0] = [0]"
    using assms(3,4) by (simp add: nonzero_idx_def upt_rec)
  have xs: "take_cols ex_X [0] = [[1], [1], [-1], [-1]]"
    by (simp add: take_cols_def ex_X_def)
  have tr: "transpose [[1], [1], [-1], [-1::real]] = [[1, 1, -1, -1]]"
           "transpose [[1, 1, -1, -1::real]] = [[1], [1], [-1], [-1]]"
    by (simp_all add: transpose.simps)
  have po: "post_ols ex_oracles [8 - lambd / 8, 0] ex_X ex_y = Inr [8, 0]"
    unfolding post_ols_def nz Let_def xs tr
    by (simp add: ex_oracles_def matmul_def matvec_def dot_def tr ex_y_def scatter_def)
  show ?thesis
    by (simp add: RlassoBase_cvxpy_solve_def sr po assms(1))
qed

lemma ex_resid: "vsub ex_y (matvec ex_X [8, 0]) = [7, -7, -1, 1]"
  by (simp add: vsub_def matvec_def ex_X_def ex_y_def dot_def)

lemma ex_sigma: "sqrt (mean (sq_vec [4, -4, -4, 4])) = 4" "sqrt (mean (sq_vec [7, -7, -1, 1])) = 5"
  by (simp_all add: mean_def sq_vec_def)

lemma ex_algorithm:
  "Rlasso_rlasso_algorithm ex_oracles ex_est 0 ex_X ex_y
     = Inr (([8, 0], 44, [[1, 0], [0, 1]]),
            \<lparr>est = default_gamma ex_est 4, draws = 0,
             events = [ConvexSolve, PostOLS, ConvexSolve, PostOLS], n_iter = 2\<rparr>)"
proof -
  have n: "nrows ex_X = 4" "ncols ex_X = 2" by (simp_all add: nrows_def ncols_def ex_X_def)
  have k: "nat (max_iter ex_est) = Suc (Suc 0)" by (simp add: ex_est_fields)
  show ?thesis
    unfolding Rlasso_rlasso_algorithm_def Let_def n ex_pilot [OF ex_est_fields(5)] k
    by (simp add: ex_est_fields ex_psi ex_level ex_sigma ex_solve default_gamma_fields
          default_gamma_idem ex_resid isclose_def)
qed

subsection \<open>Facts about fit\<close>

lemma check_X_y_Inr:
  assumes "check_X_y X y = Inr (X1, y1)"
  shows "X1 = X \<and> y1 = y \<and> X \<noteq> [] \<and> 0 < ncols X \<and> rectangular X \<and> length y = nrows X"
  using assms by (auto simp: check_X_y_def check_array_def split: if_splits sum.splits)

lemma RlassoBase_fit_cases:
  assumes "RlassoBase_fit alg self d X y = Inr r"
  obtains beta lambd psi r0 where
    "check_X_y X y = Inr (X, y)"
    "alg self d (if fit_intercept self then center_columns X else X)
        (if fit_intercept self then center y else y) = Inr ((beta, lambd, psi), r0)"
    "r = r0\<lparr>est := (est r0)\<lparr>coef_attr := Some beta, lambd_attr := Some lambd,
                              psi_attr := Some psi\<rparr>\<rparr>"
proof -
  from assms obtain X1 y1 where c: "check_X_y X y = Inr (X1, y1)"
    by (cases "check_X_y X y") (auto simp: RlassoBase_fit_def)
  then have e: "X1 = X" "y1 = y" using check_X_y_Inr by blast+
  from assms c e obtain beta lambd psi r0 where
    "alg self d (if fit_intercept self then center_columns X else X)
        (if fit_intercept self then center y else y) = Inr ((beta, lambd, psi), r0)"
    "r = r0\<lparr>est := (est r0)\<lparr>coef_attr := Some beta, lambd_attr := Some lambd,
                              psi_attr := Some psi\<rparr>\<rparr>"
    by (auto simp: RlassoBase_fit_def split: sum.splits)
  with c e that show thesis by blast
qed

lemma default_gamma_n_iter_attr:
  "default_gamma (self\<lparr>n_iter_attr := a\<rparr>) n = (default_gamma self n)\<lparr>n_iter_attr := a\<rparr>"
  by (simp add: default_gamma_def split: option.splits)

lemma SqrtRlasso_algorithm_run:
  assumes "SqrtRlasso_rlasso_algorithm orc self d X y = Inr (res, r)"
  shows "(\<exists>a. est r = (default_gamma self (nrows X))\<lparr>n_iter_attr := a\<rparr>)
       \<and> events r = concat (replicate (if cov_type self = ''nonrobust'' then 1 else n_iter r)
                               (step_events self))
       \<and> n_iter r \<le> nat (max_iter self)"
proof (cases "cov_type self = ''nonrobust''")
  case True
  with assms obtain l s' ps b ev where
    lv: "SqrtRlasso_penalty_level orc (self\<lparr>n_iter_attr := Some None\<rparr>) (nrows X) (ncols X) = Inr (l, s')"
    and cs: "RlassoBase_cvxpy_solve orc s' SqrtRlasso_criterion_function X y l ps (nrows X) = Inr (b, ev)"
    and r: "r = \<lparr>est = s', draws = d, events = ev, n_iter = 0\<rparr>"
    by (auto simp: SqrtRlasso_rlasso_algorithm_def Let_def split: sum.splits prod.splits)
  from SqrtRlasso_penalty_level_est [OF lv]
  have s': "s' = (default_gamma self (nrows X))\<lparr>n_iter_attr := Some None\<rparr>"
    by (simp add: default_gamma_n_iter_attr)
  from cvxpy_solve_events [OF cs] have "ev = step_events self"
    by (simp add: step_events_def s' default_gamma_fields)
  with r s' True show ?thesis by auto
next
  case False
  with assms obtain b0 r0 l s' b rs ps r1 where
    lv: "SqrtRlasso_penalty_level orc (self\<lparr>n_iter_attr := Some (Some 0)\<rparr>) (nrows X) (ncols X) = Inr (l, s')"
    and lp: "robust_loop orc SqrtRlasso_penalty_loadings SqrtRlasso_criterion_function X y (nrows X) l
       (nat (max_iter s')) (b0, r0, diag (replicate (ncols X) 1),
        \<lparr>est = s', draws = d, events = [], n_iter = 0\<rparr>) = Inr (b, rs, ps, r1)"
    and r: "r = r1\<lparr>est := (est r1)\<lparr>n_iter_attr := Some (Some (n_iter r1))\<rparr>\<rparr>"
    by (auto simp: SqrtRlasso_rlasso_algorithm_def Let_def split: sum.splits prod.splits)
  from SqrtRlasso_penalty_level_est [OF lv]
  have s': "s' = (default_gamma self (nrows X))\<lparr>n_iter_attr := Some (Some 0)\<rparr>"
    by (simp add: default_gamma_n_iter_attr)
  have se: "step_events s' = step_events self"
    by (simp add: step_events_def s' default_gamma_fields)
  from robust_loop_run [OF lp] r False show ?thesis
    by (auto simp: s' step_events_def default_gamma_fields)
qed

lemma Rlasso_fit_est:
  assumes "Rlasso_fit orc self d X y = Inr r"
  obtains beta lambd psi where
    "est r = self\<lparr>coef_attr := Some beta, lambd_attr := Some lambd, psi_attr := Some psi\<rparr>
     \<or> est r = (default_gamma self (nrows X))\<lparr>coef_attr := Some beta, lambd_attr := Some lambd,
                 psi_attr := Some psi\<rparr>"
proof -
  from assms [unfolded Rlasso_fit_def] obtain beta lambd psi r0 where
    a: "Rlasso_rlasso_algorithm orc self d (if fit_intercept self then center_columns X else X)
        (if fit_intercept self then center y else y) = Inr ((beta, lambd, psi), r0)"
    and r: "r = r0\<lparr>est := (est r0)\<lparr>coef_attr := Some beta, lambd_attr := Some lambd,
                              psi_attr := Some psi\<rparr>\<rparr>"
    by (rule RlassoBase_fit_cases)
  have n: "nrows (if fit_intercept self then center_columns X else X) = nrows X"
    by (simp add: nrows_def center_columns_def)
  from Rlasso_algorithm_run [OF a] have "est r0 = self \<or> est r0 = default_gamma self (nrows X)"
    unfolding n by blast
  with r have "est r = self\<lparr>coef_attr := Some beta, lambd_attr := Some lambd, psi_attr := Some psi\<rparr>
     \<or> est r = (default_gamma self (nrows X))\<lparr>coef_attr := Some beta, lambd_attr := Some lambd,
                 psi_attr := Some psi\<rparr>" by auto
  with that show thesis by blast
qed

lemma SqrtRlasso_fit_est:
  assumes "SqrtRlasso_fit orc self d X y = Inr r"
  obtains beta lambd psi a where
    "est r = (default_gamma self (nrows X))\<lparr>coef_attr := Some beta, lambd_attr := Some lambd,
                 psi_attr := Some psi, n_iter_attr := a\<rparr>"
proof -
  from assms [unfolded SqrtRlasso_fit_def] obtain beta lambd psi r0 where
    a: "SqrtRlasso_rlasso_algorithm orc self d (if fit_intercept self then center_columns X else X)
        (if fit_intercept self then center y else y) = Inr ((beta, lambd, psi), r0)"
    and r: "r = r0\<lparr>est := (est r0)\<lparr>coef_attr := Some beta, lambd_attr := Some lambd,
                              psi_attr := Some psi\<rparr>\<rparr>"
    by (rule RlassoBase_fit_cases)
  have n: "nrows (if fit_intercept self then center_columns X else X) = nrows X"
    by (simp add: nrows_def center_columns_def)
  from SqrtRlasso_algorithm_run [OF a] obtain m where
    "est r0 = (default_gamma self (nrows X))\<lparr>n_iter_attr := m\<rparr>"
    unfolding n by blast
  with r have "est r = (default_gamma self (nrows X))\<lparr>coef_attr := Some beta, lambd_attr := Some lambd,
                 psi_attr := Some psi, n_iter_attr := m\<rparr>" by simp
  with that show thesis by blast
qed

lemma init_intercept: "RlassoBase_init kws = Inr self \<Longrightarrow> intercept_attr self = None"
  by (auto simp: RlassoBase_init_def init_attributes_def split: if_splits)

lemma ex_fit: "Rlasso_fit ex_oracles ex_est 0 ex_X ex_y = Inr ex_run"
  by (simp add: Rlasso_fit_def RlassoBase_fit_def ex_check ex_center ex_est_fields
        ex_algorithm ex_run_def default_gamma_def)

lemma ex_check_array: "check_array ex_X = Inr ex_X" "ncols ex_X = 2" "nrows ex_X = 4"
  by (simp_all add: check_array_def ex_X_def ncols_def nrows_def rectangular_def)

lemma ex_init: "RlassoBase_init [] = Inr ex_est"
  by (simp add: RlassoBase_init_def ex_est_def)

subsection \<open>Facts about the solver's status\<close>

lemma solve_and_round_forget:
  "solve_and_round (orc\<lparr>cvx_solve := \<lambda>f p. forget_status (cvx_solve orc f p)\<rparr>) self criterion X y lambd psi n
   = solve_and_round orc self criterion X y lambd psi n"
  by (cases "cvx_solve orc (\<lambda>beta. criterion X y beta lambd psi n) (ncols X)")
     (simp_all add: solve_and_round_def split: option.splits)

lemma post_ols_solver: "post_ols (orc\<lparr>cvx_solve := g\<rparr>) = post_ols orc"
  by (intro ext) (simp add: post_ols_def Let_def cong: sum.case_cong)

lemma cvxpy_solve_forget:
  "RlassoBase_cvxpy_solve (orc\<lparr>cvx_solve := \<lambda>f p. forget_status (cvx_solve orc f p)\<rparr>) self criterion X y lambd psi n
   = RlassoBase_cvxpy_solve orc self criterion X y lambd psi n"
  by (simp add: RlassoBase_cvxpy_solve_def solve_and_round_forget post_ols_solver
        cong: sum.case_cong if_cong)

lemma simulate_solver: "simulate (orc\<lparr>cvx_solve := g\<rparr>) = simulate orc"
  by (intro ext) (simp add: simulate_def cong: sum.case_cong)

lemma Rlasso_penalty_level_solver:
  "Rlasso_penalty_level (orc\<lparr>cvx_solve := g\<rparr>) = Rlasso_penalty_level orc"
  by (intro ext)
     (simp add: Rlasso_penalty_level_def simulate_solver Let_def
        cong: sum.case_cong if_cong option.case_cong)

lemma SqrtRlasso_penalty_level_solver:
  "SqrtRlasso_penalty_level (orc\<lparr>cvx_solve := g\<rparr>) = SqrtRlasso_penalty_level orc"
  by (intro ext) (simp add: SqrtRlasso_penalty_level_def Let_def cong: if_cong)

lemma pilot_fit_solver: "pilot_fit (orc\<lparr>cvx_solve := g\<rparr>) = pilot_fit orc"
  by (intro ext) (simp add: pilot_fit_def Let_def cong: sum.case_cong if_cong)

lemma nonrobust_loop_forget:
  "nonrobust_loop (orc\<lparr>cvx_solve := \<lambda>f p. forget_status (cvx_solve orc f p)\<rparr>) X y n p psi k s
   = nonrobust_loop orc X y n p psi k s"
proof (induction k arbitrary: s)
  case 0
  then show ?case by simp
next
  case (Suc k)
  obtain beta0 resid0 lambd0 r where s: "s = (beta0, resid0, lambd0, r)" by (cases s) auto
  show ?case
    unfolding s
    by (simp add: Rlasso_penalty_level_solver cvxpy_solve_forget Suc.IH Let_def
          cong: sum.case_cong if_cong prod.case_cong)
qed

lemma robust_loop_forget:
  "robust_loop (orc\<lparr>cvx_solve := \<lambda>f p. forget_status (cvx_solve orc f p)\<rparr>) loadings criterion X y n lambd k s
   = robust_loop orc loadings criterion X y n lambd k s"
proof (induction k arbitrary: s)
  case 0
  then show ?case by simp
next
  case (Suc k)
  obtain beta0 resid0 psi0 r where s: "s = (beta0, resid0, psi0, r)" by (cases s) auto
  show ?case
    unfolding s
    by (simp add: cvxpy_solve_forget Suc.IH cong: sum.case_cong if_cong prod.case_cong)
qed

lemma Rlasso_algorithm_forget:
  "Rlasso_rlasso_algorithm (orc\<lparr>cvx_solve := \<lambda>f p. forget_status (cvx_solve orc f p)\<rparr>)
   = Rlasso_rlasso_algorithm orc"
  by (intro ext)
     (simp add: Rlasso_rlasso_algorithm_def pilot_fit_solver nonrobust_loop_forget
        robust_loop_forget Rlasso_penalty_level_solver Let_def
        cong: sum.case_cong if_cong prod.case_cong)

lemma SqrtRlasso_algorithm_forget:
  "SqrtRlasso_rlasso_algorithm (orc\<lparr>cvx_solve := \<lambda>f p. forget_status (cvx_solve orc f p)\<rparr>)
   = SqrtRlasso_rlasso_algorithm orc"
  by (intro ext)
     (simp add: SqrtRlasso_rlasso_algorithm_def pilot_fit_solver cvxpy_solve_forget
        robust_loop_forget SqrtRlasso_penalty_level_solver Let_def
        cong: sum.case_cong if_cong prod.case_cong)

lemma ex_optimal_self:
  "ex_oracles\<lparr>cvx_solve := \<lambda>f p. Returns Optimal (Some [8 - (f [1, 0] - 74) / 2, 0])\<rparr>
   = ex_oracles"
  by (simp add: ex_oracles_def)

lemma ex_infeasible_fit:
  "Rlasso_fit (ex_oracles\<lparr>cvx_solve := \<lambda>f p. Returns Infeasible None\<rparr>) ex_est 0 ex_X ex_y
   = Inl TypeError"
proof -
  let ?o = "ex_oracles\<lparr>cvx_solve := \<lambda>f p. Returns Infeasible None\<rparr>"
  have n: "nrows ex_X = 4" "ncols ex_X = 2" by (simp_all add: ex_check_array)
  have k: "nat (max_iter ex_est) = Suc (Suc 0)" by (simp add: ex_est_fields)
  have cs: "RlassoBase_cvxpy_solve ?o self Rlasso_criterion_function ex_X ex_y lambd psi 4
            = Inl TypeError" for self lambd psi
    by (simp add: RlassoBase_cvxpy_solve_def solve_and_round_def)
  have "Rlasso_rlasso_algorithm ?o ex_est 0 ex_X ex_y = Inl TypeError"
    unfolding Rlasso_rlasso_algorithm_def Let_def n pilot_fit_solver
      ex_pilot [OF ex_est_fields(5)] k
    by (simp add: ex_est_fields ex_psi Rlasso_penalty_level_solver ex_level ex_sigma cs
          isclose_def default_gamma_fields)
  then show ?thesis
    by (simp add: Rlasso_fit_def RlassoBase_fit_def ex_check ex_center ex_est_fields)
qed

subsection \<open>Facts about the refit\<close>

lemma length_scatter: "length (scatter beta idx vals) = length beta"
proof -
  have "length (fold (\<lambda>(j, v) b. b[j := v]) zs beta) = length beta" for zs
    by (induction zs arbitrary: beta) (auto split: prod.splits)
  then show ?thesis by (simp add: scatter_def)
qed

lemma scatter_outside: "j \<notin> set idx \<Longrightarrow> scatter beta idx vals ! j = beta ! j"
proof -
  have "j \<notin> fst ` set zs \<Longrightarrow> fold (\<lambda>(j, v) b. b[j := v]) zs beta ! j = beta ! j" for zs
    by (induction zs arbitrary: beta) (auto split: prod.splits)
  moreover have "fst ` set (zip idx vals) \<subseteq> set idx"
    by (auto dest: set_zip_leftD)
  ultimately show "j \<notin> set idx \<Longrightarrow> scatter beta idx vals ! j = beta ! j"
    unfolding scatter_def by blast
qed

lemma scatter_inside:
  assumes "distinct idx" and "length vals = length idx" and "\<forall>j \<in> set idx. j < length beta"
    and "i < length idx"
  shows "scatter beta idx vals ! (idx ! i) = vals ! i"
  using assms
proof (induction idx arbitrary: vals beta i)
  case Nil
  then show ?case by simp
next
  case (Cons a idx)
  then obtain v vs where vals: "vals = v # vs" by (cases vals) auto
  have step: "scatter beta (a # idx) (v # vs) = scatter (beta[a := v]) idx vs"
    by (simp add: scatter_def)
  show ?case
  proof (cases i)
    case 0
    from Cons.prems have "a \<notin> set idx" "a < length beta" by auto
    then show ?thesis
      unfolding vals step 0 by (simp add: scatter_outside)
  next
    case (Suc k)
    from Cons.prems vals Suc have
      "distinct idx" "length vs = length idx" "\<forall>j \<in> set idx. j < length (beta[a := v])"
      "k < length idx" by auto
    from Cons.IH [OF this] show ?thesis
      unfolding vals step Suc by simp
  qed
qed

lemma nonzero_idx_props:
  "distinct (nonzero_idx beta)" "\<forall>j \<in> set (nonzero_idx beta). j < length beta"
  "j < length beta \<Longrightarrow> beta ! j = 0 \<Longrightarrow> j \<notin> set (nonzero_idx beta)"
  by (simp_all add: nonzero_idx_def)

lemma post_ols_refit:
  assumes "post_ols orc beta X y = Inr b"
  shows "length b = length beta
       \<and> (\<forall>j < length beta. beta ! j = 0 \<longrightarrow> b ! j = 0)
       \<and> (\<exists>Ainv. linalg_inv orc (matmul (transpose (take_cols X (nonzero_idx beta)))
                                         (take_cols X (nonzero_idx beta))) = Inr Ainv
              \<and> (length Ainv = length (nonzero_idx beta) \<longrightarrow>
                   (\<forall>i < length (nonzero_idx beta).
                      b ! (nonzero_idx beta ! i)
                      = matvec (matmul Ainv (transpose (take_cols X (nonzero_idx beta)))) y ! i)))"
proof -
  let ?idx = "nonzero_idx beta"
  let ?Xs = "take_cols X ?idx"
  from assms obtain Ainv where
    inv: "linalg_inv orc (matmul (transpose ?Xs) ?Xs) = Inr Ainv"
    and b: "b = scatter beta ?idx (matvec (matmul Ainv (transpose ?Xs)) y)"
    by (auto simp: post_ols_def Let_def split: sum.splits)
  have l: "length (matvec (matmul Ainv (transpose ?Xs)) y) = length Ainv"
    by (simp add: matvec_def matmul_def)
  have 1: "length b = length beta" by (simp add: b length_scatter)
  have 2: "\<forall>j < length beta. beta ! j = 0 \<longrightarrow> b ! j = 0"
    by (simp add: b scatter_outside nonzero_idx_props(3))
  have 3: "length Ainv = length ?idx \<longrightarrow>
           (\<forall>i < length ?idx. b ! (?idx ! i) = matvec (matmul Ainv (transpose ?Xs)) y ! i)"
    unfolding b using scatter_inside [OF nonzero_idx_props(1) _ nonzero_idx_props(2)] l
    by auto
  from 1 2 3 inv show ?thesis by blast
qed

subsection \<open>Facts about the pilot fit\<close>

lemma mapE_length: "mapE f xs = Inr ys \<Longrightarrow> length ys = length xs"
  by (induction xs arbitrary: ys) (auto split: sum.splits)

lemma length_argsort: "length (argsort r) = length r"
  by (simp add: argsort_def)

lemma length_slice_from:
  "length (slice_from (- k) xs)
   = (if 0 < k then min (nat k) (length xs) else length xs - nat (- k))"
  by (auto simp: slice_from_def)

lemma length_transpose_take_cols:
  assumes "X \<noteq> []"
  shows "length (transpose (take_cols X idx)) = length idx"
proof -
  have "foldr (\<lambda>xs. max (length xs)) (map (\<lambda>row. map (\<lambda>j. row ! j) idx) X) 0
        = (if X = [] then 0 else length idx)"
    by (induction X) auto
  with assms show ?thesis by (simp add: length_transpose take_cols_def)
qed

lemma length_le_transpose: "r \<in> set X \<Longrightarrow> length r \<le> length (transpose X)"
proof -
  have "r \<in> set X \<Longrightarrow> length r \<le> foldr (\<lambda>xs. max (length xs)) X 0"
    by (induction X) auto
  then show "r \<in> set X \<Longrightarrow> length r \<le> length (transpose X)"
    by (simp add: length_transpose)
qed

lemma ncols_center_columns: "ncols (center_columns X) = ncols X"
proof (cases X)
  case Nil
  then show ?thesis by (simp add: center_columns_def)
next
  case (Cons a list)
  then have "length a \<le> length (transpose X)" by (simp add: length_le_transpose)
  with Cons show ?thesis
    by (simp add: center_columns_def ncols_def vsub_def mean_axis0_def)
qed

lemma pilot_fit_length:
  assumes "pilot_fit orc self X y = Inr (beta0, resid0)" and "X \<noteq> []"
    and "\<forall>A B. linalg_inv orc A = Inr B \<longrightarrow> length B = length A"
  shows "length beta0
       = (if 0 < n_corr self then min (nat (n_corr self)) (ncols X)
          else ncols X - nat (- n_corr self))"
proof -
  from assms(1) obtain r Ainv where
    r: "mapE (\<lambda>k. case pearsonr orc (column X k) y of Inl e \<Rightarrow> Inl e | Inr v \<Rightarrow> Inr \<bar>v\<bar>)
          [0..<ncols X] = Inr r"
    and inv: "linalg_inv orc
                (matmul (transpose (take_cols X (slice_from (- n_corr self) (argsort r))))
                        (take_cols X (slice_from (- n_corr self) (argsort r)))) = Inr Ainv"
    and b: "beta0 = matvec (matmul Ainv
                (transpose (take_cols X (slice_from (- n_corr self) (argsort r))))) y"
    by (auto simp: pilot_fit_def Let_def split: sum.splits)
  from mapE_length [OF r] have lr: "length r = ncols X" by simp
  from assms(3) inv have "length Ainv
      = length (matmul (transpose (take_cols X (slice_from (- n_corr self) (argsort r))))
                        (take_cols X (slice_from (- n_corr self) (argsort r))))" by blast
  also have "\<dots> = length (slice_from (- n_corr self) (argsort r))"
    by (simp add: matmul_def length_transpose_take_cols [OF assms(2)])
  finally have "length Ainv = length (slice_from (- n_corr self) (argsort r))" .
  moreover have "length beta0 = length Ainv" by (simp add: b matvec_def matmul_def)
  ultimately show ?thesis
    by (simp only: length_slice_from length_argsort lr)
qed

lemma Rlasso_algorithm_no_iteration:
  assumes "max_iter self \<le> 0"
  shows "Rlasso_rlasso_algorithm orc self d X y
       = (case pilot_fit orc self X y of
            Inl e \<Rightarrow> Inl e
          | Inr (beta0, resid0) \<Rightarrow>
              if cov_type self = ''nonrobust'' then
                Inr ((beta0, 0, diag (nonrobust_psi X)),
                     \<lparr>est = self, draws = d, events = [], n_iter = 0\<rparr>)
              else
                (case Rlasso_penalty_level orc self d (nrows X) (ncols X) None None None of
                   Inl e \<Rightarrow> Inl e
                 | Inr (lambd, self', d') \<Rightarrow>
                     Inr ((beta0, lambd, diag (replicate (ncols X) 1)),
                          \<lparr>est = self', draws = d', events = [], n_iter = 0\<rparr>)))"
proof -
  have k: "nat (max_iter self) = 0" using assms by simp
  have k': "nat (max_iter s') = 0"
    if "Rlasso_penalty_level orc self d (nrows X) (ncols X) None None None = Inr (l, s', d')"
    for l s' d'
    using Rlasso_penalty_level_est [OF that] assms by (simp add: default_gamma_fields)
  show ?thesis
    unfolding Rlasso_rlasso_algorithm_def Let_def k
    by (auto simp: Rlasso_penalty_loadings_def k' split: sum.splits prod.splits)
qed

subsection \<open>Facts about gamma\<close>

lemma ln4_less_2: "ln (4::real) < 2"
proof -
  have "ln (4::real) = ln (2 * 2)" by simp
  also have "\<dots> = ln 2 + ln 2" by (subst ln_mult) simp_all
  finally show ?thesis using ln_2_less_1 by simp
qed

lemma Rlasso_algorithm_gamma:
  assumes "Rlasso_rlasso_algorithm orc self d X y = Inr (res, r)"
    and "0 < max_iter self \<or> cov_type self \<noteq> ''nonrobust''"
  shows "est r = default_gamma self (nrows X)"
proof (cases "cov_type self = ''nonrobust''")
  case True
  with assms(1) obtain b0 r0 ps b rs l where
    "nonrobust_loop orc X y (nrows X) (ncols X) ps (nat (max_iter self))
       (b0, r0, 0, \<lparr>est = self, draws = d, events = [], n_iter = 0\<rparr>) = Inr (b, rs, l, r)"
    by (auto simp: Rlasso_rlasso_algorithm_def Let_def split: sum.splits prod.splits)
  from nonrobust_loop_run [OF this] assms(2) True show ?thesis by simp
next
  case False
  with assms(1) obtain b0 r0 l s' d' b rs ps where
    lv: "Rlasso_penalty_level orc self d (nrows X) (ncols X) None None None = Inr (l, s', d')"
    and lp: "robust_loop orc Rlasso_penalty_loadings Rlasso_criterion_function X y (nrows X) l
       (nat (max_iter s')) (b0, r0, diag (replicate (ncols X) 1),
        \<lparr>est = s', draws = d', events = [], n_iter = 0\<rparr>) = Inr (b, rs, ps, r)"
    by (auto simp: Rlasso_rlasso_algorithm_def Let_def split: sum.splits prod.splits)
  from Rlasso_penalty_level_est [OF lv] robust_loop_run [OF lp] show ?thesis by simp
qed

lemma Rlasso_fit_gamma:
  assumes "Rlasso_fit orc self d X y = Inr r"
  shows "(gamma (est r) = gamma self \<or> gamma (est r) = gamma (default_gamma self (nrows X)))
       \<and> (0 < max_iter self \<or> cov_type self \<noteq> ''nonrobust'' \<longrightarrow>
            gamma (est r) = gamma (default_gamma self (nrows X)))"
proof -
  from assms [unfolded Rlasso_fit_def] obtain beta lambd psi r0 where
    a: "Rlasso_rlasso_algorithm orc self d (if fit_intercept self then center_columns X else X)
        (if fit_intercept self then center y else y) = Inr ((beta, lambd, psi), r0)"
    and r: "r = r0\<lparr>est := (est r0)\<lparr>coef_attr := Some beta, lambd_attr := Some lambd,
                              psi_attr := Some psi\<rparr>\<rparr>"
    by (rule RlassoBase_fit_cases)
  have n: "nrows (if fit_intercept self then center_columns X else X) = nrows X"
    by (simp add: nrows_def center_columns_def)
  from Rlasso_algorithm_run [OF a] have 1: "est r0 = self \<or> est r0 = default_gamma self (nrows X)"
    unfolding n by blast
  have 2: "est r0 = default_gamma self (nrows X)"
    if "0 < max_iter self \<or> cov_type self \<noteq> ''nonrobust''"
    using Rlasso_algorithm_gamma [OF a that] unfolding n .
  from 1 2 show ?thesis by (auto simp: r)
qed

lemma SqrtRlasso_fit_gamma:
  assumes "SqrtRlasso_fit orc self d X y = Inr r"
  shows "gamma (est r) = gamma (default_gamma self (nrows X))"
  using assms by (rule SqrtRlasso_fit_est) simp

lemma ex_est0_fields:
  "fit_intercept ex_est0" "cov_type ex_est0 = ''nonrobust''" "n_corr ex_est0 = 5"
  "max_iter ex_est0 = 0"
  by (simp_all add: ex_est0_def init_attributes_def kw_flag_def kw_str_def kw_int_def)

lemma ex_nonrobust_psi: "diag (nonrobust_psi ex_X) = [[1, 0], [0, 1]]"
  by (simp add: nonrobust_psi_def mean_axis0_def sq_mat_def sq_vec_def ex_X_def
        transpose.simps mean_def diag_def upt_rec)

lemma ex_fit0: "Rlasso_fit ex_oracles ex_est0 0 ex_X ex_y = Inr ex_run0"
  by (simp add: Rlasso_fit_def RlassoBase_fit_def ex_check ex_center ex_est0_fields
        Rlasso_algorithm_no_iteration ex_pilot ex_nonrobust_psi ex_run0_def)

lemma ex_inv_shape: "\<forall>A B. linalg_inv ex_oracles A = Inr B \<longrightarrow> length B = length A"
  by (auto simp: ex_oracles_def)

subsection \<open>Further evaluations of the example\<close>

lemma hard_threshold_nth:
  "j < length v \<Longrightarrow> hard_threshold tol v ! j = (if \<bar>v ! j\<bar> < tol then 0 else v ! j)"
  by (simp add: hard_threshold_def)

lemma length_hard_threshold: "length (hard_threshold tol v) = length v"
  by (simp add: hard_threshold_def)

lemma ex_est_nopost_fields:
  "\<not> post ex_est_nopost" "zero_tol ex_est_nopost = 1 / 10000"
  by (simp_all add: ex_est_nopost_def init_attributes_def kw_flag_def kw_float_def)

lemma ex_tiny_solve:
  "RlassoBase_cvxpy_solve ex_tiny_oracles ex_est_nopost Rlasso_criterion_function ex_X ex_y 44
      [[1, 0], [0, 1]] 4 = Inr ([5 / 2, 0], [ConvexSolve])"
  by (simp add: RlassoBase_cvxpy_solve_def solve_and_round_def ex_tiny_oracles_def
        ex_est_nopost_fields hard_threshold_def)

lemma ex_est0_more:
  "post ex_est0" "\<not> x_dependent ex_est0" "c ex_est0 = 11 / 10" "zero_tol ex_est0 = 1 / 10000"
  by (simp_all add: ex_est0_def init_attributes_def kw_flag_def kw_float_def)

lemma ex_sqrt_solve:
  assumes "post self"
  shows "RlassoBase_cvxpy_solve ex_sqrt_oracles self SqrtRlasso_criterion_function ex_X ex_y
           lambd psi n = Inr ([0, 0], [ConvexSolve, PostOLS])"
proof -
  have sr: "solve_and_round ex_sqrt_oracles self SqrtRlasso_criterion_function ex_X ex_y
              lambd psi n = Inr [0, 0]"
    by (simp add: solve_and_round_def ex_sqrt_oracles_def hard_threshold_def)
  have nz: "nonzero_idx [0, 0::real] = []"
    by (simp add: nonzero_idx_def upt_rec)
  have xs: "take_cols ex_X [] = [[], [], [], []]"
    by (simp add: take_cols_def ex_X_def)
  have tr: "transpose [[], [], [], []::real list] = []"
    by (simp add: transpose.simps)
  have po: "post_ols ex_sqrt_oracles [0, 0] ex_X ex_y = Inr [0, 0]"
    unfolding post_ols_def nz Let_def xs tr
    by (simp add: ex_sqrt_oracles_def ex_oracles_def matmul_def matvec_def scatter_def)
  show ?thesis
    by (simp add: RlassoBase_cvxpy_solve_def sr po assms)
qed

lemma ex_sqrt_algorithm:
  "SqrtRlasso_rlasso_algorithm ex_sqrt_oracles ex_est0 0 ex_X ex_y
     = Inr (([0, 0], 22 / 5, [[1, 0], [0, 1]]),
            \<lparr>est = (default_gamma ex_est0 4)\<lparr>n_iter_attr := Some None\<rparr>, draws = 0,
             events = [ConvexSolve, PostOLS], n_iter = 0\<rparr>)"
proof -
  have n: "nrows ex_X = 4" "ncols ex_X = 2" by (simp_all add: nrows_def ncols_def ex_X_def)
  have lv: "SqrtRlasso_penalty_level ex_sqrt_oracles (ex_est0\<lparr>n_iter_attr := Some None\<rparr>) 4 2
      = Inr (22 / 5, (default_gamma ex_est0 4)\<lparr>n_iter_attr := Some None\<rparr>)"
    by (simp add: SqrtRlasso_penalty_level_def Let_def default_gamma_n_iter_attr
          default_gamma_fields ex_est0_more ex_sqrt_oracles_def ex_oracles_def)
  have ps: "SqrtRlasso_penalty_loadings ((default_gamma ex_est0 4)\<lparr>n_iter_attr := Some None\<rparr>)
              ex_X 4 None = Inr [[1, 0], [0, 1]]"
    by (simp add: SqrtRlasso_penalty_loadings_def default_gamma_fields ex_est0_fields
          ex_nonrobust_psi)
  show ?thesis
    unfolding SqrtRlasso_rlasso_algorithm_def Let_def n
    by (simp add: ex_est0_fields lv ps ex_sqrt_solve default_gamma_fields ex_est0_more)
qed

lemma Rlasso_fit_no_level:
  assumes "Rlasso_fit orc self d X y = Inr r"
    and "max_iter self \<le> 0" and "cov_type self = ''nonrobust''"
  shows "gamma (est r) = gamma self"
proof -
  from assms(1) [unfolded Rlasso_fit_def] obtain beta lambd psi r0 where
    a: "Rlasso_rlasso_algorithm orc self d (if fit_intercept self then center_columns X else X)
        (if fit_intercept self then center y else y) = Inr ((beta, lambd, psi), r0)"
    and r: "r = r0\<lparr>est := (est r0)\<lparr>coef_attr := Some beta, lambd_attr := Some lambd,
                              psi_attr := Some psi\<rparr>\<rparr>"
    by (rule RlassoBase_fit_cases)
  from a have "est r0 = self"
    unfolding Rlasso_algorithm_no_iteration [OF assms(2)]
    by (auto simp: assms(3) split: sum.splits prod.splits)
  with r show ?thesis by simp
qed

lemma ex_est0_gamma: "gamma ex_est0 = None"
  by (simp add: ex_est0_def init_attributes_def kw_float_opt_def)

section \<open>The properties of the specification\<close>

subsection \<open>The intercept\<close>

text \<open>
  C1. The specification states that \<^verbatim>\<open>fit\<close> with \<^verbatim>\<open>fit_intercept\<close> set stores the mean of \<open>y\<close> as
  the intercept and that \<^verbatim>\<open>predict\<close> adds it. \<^verbatim>\<open>fit\<close> subtracts the mean but assigns
  only \<^verbatim>\<open>coef_\<close>, \<^verbatim>\<open>lambd_\<close> and \<^verbatim>\<open>psi_\<close>; \<^verbatim>\<open>predict\<close> reads \<^verbatim>\<open>self.intercept_\<close>. So
  on an estimator that was constructed with \<^verbatim>\<open>fit_intercept\<close> set and then fitted (by
  either class), no attribute \<^verbatim>\<open>intercept_\<close> exists, \<^verbatim>\<open>predict\<close> returns for no input
  at all, and on every input that passes its checks it raises \<^verbatim>\<open>AttributeError\<close>.
\<close>

theorem fit_leaves_no_intercept:
  assumes "RlassoBase_init kws = Inr self" and "fit_intercept self"
    and "Rlasso_fit orc self d X y = Inr r \<or> SqrtRlasso_fit orc self d X y = Inr r"
  shows "intercept_attr (est r) = None
       \<and> (\<forall>X'. \<exists>e. RlassoBase_predict (est r) X' = Inl e)
       \<and> (\<forall>X' beta. coef_attr (est r) = Some beta \<and> check_array X' = Inr X'
              \<and> ncols X' = length beta
            \<longrightarrow> RlassoBase_predict (est r) X' = Inl AttributeError)"
proof -
  from assms(3) have f: "intercept_attr (est r) = intercept_attr self \<and> fit_intercept (est r) = fit_intercept self"
  proof
    assume "Rlasso_fit orc self d X y = Inr r"
    then show ?thesis by (rule Rlasso_fit_est) (auto simp: default_gamma_fields)
  next
    assume "SqrtRlasso_fit orc self d X y = Inr r"
    then show ?thesis by (rule SqrtRlasso_fit_est) (auto simp: default_gamma_fields)
  qed
  with init_intercept [OF assms(1)] assms(2)
  have i: "intercept_attr (est r) = None" and fi: "fit_intercept (est r)" by simp_all
  have "\<exists>e. RlassoBase_predict (est r) X' = Inl e" for X'
    by (simp add: RlassoBase_predict_def i fi Let_def split: option.splits sum.splits)
  moreover have "RlassoBase_predict (est r) X' = Inl AttributeError"
    if "coef_attr (est r) = Some beta" "check_array X' = Inr X'" "ncols X' = length beta" for X' beta
    using that by (simp add: RlassoBase_predict_def i fi Let_def)
  ultimately show ?thesis using i by blast
qed

theorem fit_leaves_no_intercept_witness:
  "RlassoBase_init [] = Inr ex_est \<and> fit_intercept ex_est
   \<and> Rlasso_fit ex_oracles ex_est 0 ex_X ex_y = Inr ex_run
   \<and> intercept_attr (est ex_run) = None
   \<and> RlassoBase_predict (est ex_run) ex_X = Inl AttributeError"
proof -
  have c: "coef_attr (est ex_run) = Some [8, 0] \<and> check_array ex_X = Inr ex_X
           \<and> ncols ex_X = length [8, 0::real]"
    by (simp add: ex_run_def ex_check_array)
  from fit_leaves_no_intercept [OF ex_init ex_est_fields(1) disjI1 [OF ex_fit]] c
  have "intercept_attr (est ex_run) = None
        \<and> RlassoBase_predict (est ex_run) ex_X = Inl AttributeError"
    by blast
  with ex_init ex_est_fields(1) ex_fit show ?thesis by simp
qed

subsection \<open>Where the post-lasso refit happens\<close>

text \<open>
  C2. The specification states that with \<^verbatim>\<open>post\<close> set the refit is performed exactly once, after
  the loop, and not inside the solve steps. The refit is the body of
  \<^verbatim>\<open>if self.post:\<close> inside \<^verbatim>\<open>_cvxpy_solve\<close>, and neither \<^verbatim>\<open>_rlasso_algorithm\<close>
  does anything to the coefficients after its last solve. So with \<^verbatim>\<open>post\<close> set, every
  returning call of \<^verbatim>\<open>_cvxpy_solve\<close> is one solve followed by one refit, and

  \<^item> the log of a run of \<^verbatim>\<open>Rlasso._rlasso_algorithm\<close> is one solve followed by one
    refit for each of its \<^verbatim>\<open>n_iter\<close> iterations that solved, at most \<^verbatim>\<open>max_iter\<close> of
    them (none when the loop solves nothing), and nothing after;

  \<^item> the log of a run of \<^verbatim>\<open>SqrtRlasso._rlasso_algorithm\<close> is the same in its iterated
    branch, and in its \<^verbatim>\<open>"nonrobust"\<close> branch, which has no loop, it is exactly one
    solve followed by one refit, whatever \<^verbatim>\<open>max_iter\<close> is.

  In every such step the refit starts from the rounded vector, leaves its zero entries
  at zero, and puts at the indices of its nonzero entries the least-squares
  coefficients \<^verbatim>\<open>inv(X_sub.T @ X_sub) @ X_sub.T @ y\<close> of those columns (the inverse
  having the shape of its argument).
\<close>

theorem refit_inside_every_solve:
  assumes "post self"
  shows "(Rlasso_rlasso_algorithm orc self d X y = Inr (res, r) \<longrightarrow>
            events r = concat (replicate (n_iter r) [ConvexSolve, PostOLS])
            \<and> n_iter r \<le> nat (max_iter self))
       \<and> (SqrtRlasso_rlasso_algorithm orc self d X y = Inr (res', r') \<longrightarrow>
            (if cov_type self = ''nonrobust'' then events r' = [ConvexSolve, PostOLS]
             else events r' = concat (replicate (n_iter r') [ConvexSolve, PostOLS])
                  \<and> n_iter r' \<le> nat (max_iter self)))
       \<and> (\<forall>criterion lambd psi b ev.
            RlassoBase_cvxpy_solve orc self criterion X y lambd psi (nrows X) = Inr (b, ev) \<longrightarrow>
            ev = [ConvexSolve, PostOLS]
            \<and> (\<exists>beta. solve_and_round orc self criterion X y lambd psi (nrows X) = Inr beta
               \<and> post_ols orc beta X y = Inr b
               \<and> length b = length beta
               \<and> (\<forall>j < length beta. beta ! j = 0 \<longrightarrow> b ! j = 0)
               \<and> (\<exists>Ainv. linalg_inv orc (matmul (transpose (take_cols X (nonzero_idx beta)))
                                                 (take_cols X (nonzero_idx beta))) = Inr Ainv
                      \<and> (length Ainv = length (nonzero_idx beta) \<longrightarrow>
                           (\<forall>i < length (nonzero_idx beta).
                              b ! (nonzero_idx beta ! i)
                              = matvec (matmul Ainv (transpose (take_cols X (nonzero_idx beta)))) y
                                ! i)))))"
proof -
  have 1: "events r = concat (replicate (n_iter r) [ConvexSolve, PostOLS])
            \<and> n_iter r \<le> nat (max_iter self)"
    if "Rlasso_rlasso_algorithm orc self d X y = Inr (res, r)"
    using Rlasso_algorithm_run [OF that] assms by (simp add: step_events_def)
  have 2: "if cov_type self = ''nonrobust'' then events r' = [ConvexSolve, PostOLS]
             else events r' = concat (replicate (n_iter r') [ConvexSolve, PostOLS])
                  \<and> n_iter r' \<le> nat (max_iter self)"
    if "SqrtRlasso_rlasso_algorithm orc self d X y = Inr (res', r')"
    using SqrtRlasso_algorithm_run [OF that] assms by (simp add: step_events_def)
  have 3: "ev = [ConvexSolve, PostOLS]
            \<and> (\<exists>beta. solve_and_round orc self criterion X y lambd psi (nrows X) = Inr beta
               \<and> post_ols orc beta X y = Inr b
               \<and> length b = length beta
               \<and> (\<forall>j < length beta. beta ! j = 0 \<longrightarrow> b ! j = 0)
               \<and> (\<exists>Ainv. linalg_inv orc (matmul (transpose (take_cols X (nonzero_idx beta)))
                                                 (take_cols X (nonzero_idx beta))) = Inr Ainv
                      \<and> (length Ainv = length (nonzero_idx beta) \<longrightarrow>
                           (\<forall>i < length (nonzero_idx beta).
                              b ! (nonzero_idx beta ! i)
                              = matvec (matmul Ainv (transpose (take_cols X (nonzero_idx beta)))) y
                                ! i))))"
    if "RlassoBase_cvxpy_solve orc self criterion X y lambd psi (nrows X) = Inr (b, ev)"
    for criterion lambd psi b ev
  proof -
    from that assms obtain beta where
      sr: "solve_and_round orc self criterion X y lambd psi (nrows X) = Inr beta"
      and po: "post_ols orc beta X y = Inr b"
      and ev: "ev = [ConvexSolve, PostOLS]"
      by (auto simp: RlassoBase_cvxpy_solve_def split: sum.splits)
    from post_ols_refit [OF po] sr po ev show ?thesis by blast
  qed
  from 1 2 3 show ?thesis by blast
qed

theorem refit_inside_every_solve_witness:
  "post ex_est
   \<and> Rlasso_rlasso_algorithm ex_oracles ex_est 0 ex_X ex_y
       = Inr (([8, 0], 44, [[1, 0], [0, 1]]),
              \<lparr>est = default_gamma ex_est 4, draws = 0,
               events = [ConvexSolve, PostOLS, ConvexSolve, PostOLS], n_iter = 2\<rparr>)
   \<and> [ConvexSolve, PostOLS, ConvexSolve, PostOLS]
       = concat (replicate 2 [ConvexSolve, PostOLS])
   \<and> (2::nat) \<le> nat (max_iter ex_est)
   \<and> (\<exists>beta. solve_and_round ex_oracles ex_est Rlasso_criterion_function ex_X ex_y 44
                [[1, 0], [0, 1]] 4 = Inr beta
            \<and> post_ols ex_oracles beta ex_X ex_y = Inr [8, 0]
            \<and> (\<forall>j < length beta. beta ! j = 0 \<longrightarrow> [8, 0::real] ! j = 0))
   \<and> post ex_est0 \<and> cov_type ex_est0 = ''nonrobust'' \<and> max_iter ex_est0 = 0
   \<and> SqrtRlasso_rlasso_algorithm ex_sqrt_oracles ex_est0 0 ex_X ex_y
       = Inr (([0, 0], 22 / 5, [[1, 0], [0, 1]]),
              \<lparr>est = (default_gamma ex_est0 4)\<lparr>n_iter_attr := Some None\<rparr>, draws = 0,
               events = [ConvexSolve, PostOLS], n_iter = 0\<rparr>)
   \<and> events \<lparr>est = (default_gamma ex_est0 4)\<lparr>n_iter_attr := Some None\<rparr>, draws = 0,
              events = [ConvexSolve, PostOLS], n_iter = 0\<rparr> = [ConvexSolve, PostOLS]"
proof -
  note t = refit_inside_every_solve [OF ex_est_fields(2), where orc = ex_oracles and d = 0 and X = ex_X
      and y = ex_y and res = "([8, 0], 44, [[1, 0], [0, 1]])"
      and r = "\<lparr>est = default_gamma ex_est 4, draws = 0,
               events = [ConvexSolve, PostOLS, ConvexSolve, PostOLS], n_iter = 2\<rparr>"]
  note s = refit_inside_every_solve [OF ex_est0_more(1), where orc = ex_sqrt_oracles and d = 0
      and X = ex_X and y = ex_y and res' = "([0, 0], 22 / 5, [[1, 0], [0, 1]])"
      and r' = "\<lparr>est = (default_gamma ex_est0 4)\<lparr>n_iter_attr := Some None\<rparr>, draws = 0,
               events = [ConvexSolve, PostOLS], n_iter = 0\<rparr>"]
  have e: "RlassoBase_cvxpy_solve ex_oracles ex_est Rlasso_criterion_function ex_X ex_y 44
      [[1, 0], [0, 1]] (nrows ex_X) = Inr ([8, 0], [ConvexSolve, PostOLS])"
    unfolding ex_check_array by (rule ex_solve) (simp_all add: ex_est_fields)
  from t ex_algorithm have 1: "[ConvexSolve, PostOLS, ConvexSolve, PostOLS]
       = concat (replicate 2 [ConvexSolve, PostOLS])"
    and 2: "(2::nat) \<le> nat (max_iter ex_est)"
    by simp_all
  from t e have 3: "\<exists>beta. solve_and_round ex_oracles ex_est Rlasso_criterion_function ex_X ex_y 44
                [[1, 0], [0, 1]] (nrows ex_X) = Inr beta
            \<and> post_ols ex_oracles beta ex_X ex_y = Inr [8, 0]
            \<and> (\<forall>j < length beta. beta ! j = 0 \<longrightarrow> [8, 0::real] ! j = 0)"
    by blast
  from s ex_sqrt_algorithm
  have 4: "events \<lparr>est = (default_gamma ex_est0 4)\<lparr>n_iter_attr := Some None\<rparr>, draws = 0,
              events = [ConvexSolve, PostOLS], n_iter = 0\<rparr> = [ConvexSolve, PostOLS]"
    by (simp add: ex_est0_fields)
  from 1 2 3 4 ex_est_fields(2) ex_algorithm ex_est0_more(1) ex_est0_fields ex_sqrt_algorithm
  show ?thesis
    by (simp add: ex_check_array)
qed

text \<open>
  On the example, the fit of \<^verbatim>\<open>Rlasso()\<close> (\<^verbatim>\<open>post\<close> set, \<^verbatim>\<open>max_iter\<close> 2) refits twice,
  the first time before the second solve.
\<close>

theorem refit_twice_inside_loop:
  "post ex_est \<and> max_iter ex_est = 2
   \<and> Rlasso_fit ex_oracles ex_est 0 ex_X ex_y = Inr ex_run
   \<and> events ex_run = [ConvexSolve, PostOLS, ConvexSolve, PostOLS]"
  by (simp add: ex_est_fields ex_fit) (simp add: ex_run_def)

subsection \<open>The constructor\<close>

text \<open>
  C3. The specification states that the estimator takes a boolean option \<^verbatim>\<open>sqrt\<close> and that
  constructing it with that option succeeds. \<^verbatim>\<open>RlassoBase.__init__\<close> declares no such
  keyword: every constructor call that passes \<^verbatim>\<open>sqrt\<close>, whatever its value and whatever
  else it passes, raises a \<^verbatim>\<open>TypeError\<close>. The repository's tests construct
  \<^verbatim>\<open>Rlasso(sqrt=False, post=post)\<close>; in the module the variant is chosen by the class
  (\<^verbatim>\<open>Rlasso\<close> or \<^verbatim>\<open>SqrtRlasso\<close>) instead.
\<close>

theorem init_rejects_sqrt_keyword:
  assumes "''sqrt'' \<in> fst ` set kws"
  shows "RlassoBase_init kws = Inl TypeError"
proof -
  from assms obtain v where "(''sqrt'', v) \<in> set kws" by auto
  with sqrt_not_declared have "\<not> list_all (\<lambda>(k, v). k \<in> set init_keywords) kws"
    unfolding list_all_iff by blast
  then show ?thesis by (simp add: RlassoBase_init_def)
qed

theorem init_rejects_sqrt_keyword_witness:
  "RlassoBase_init [(''sqrt'', PyBool False), (''post'', PyBool True)] = Inl TypeError"
  using init_rejects_sqrt_keyword [of "[(''sqrt'', PyBool False), (''post'', PyBool True)]"]
  by simp

subsection \<open>The default of gamma\<close>

text \<open>
  C4. The specification states that without a user-supplied \<^verbatim>\<open>gamma\<close> the standard variant uses
  \<open>0.1 / sqrt n\<close>. Both \<^verbatim>\<open>_penalty_level\<close> methods start with
  \<^verbatim>\<open>if self.gamma is None: self.gamma = 0.1 / np.log(n)\<close>, so both variants use
  \<open>0.1 / log n\<close>, and the value is assigned to the estimator: a call that computes a
  penalty level (without \<^verbatim>\<open>x_dependent\<close>) returns the level of that \<^verbatim>\<open>gamma\<close> and
  leaves it stored, and every call on an estimator whose \<^verbatim>\<open>gamma\<close> is set, by
  whatever means and for data of whatever size, uses and keeps the value it finds. For
  the fits that return:

  \<^item> a fit of \<^verbatim>\<open>SqrtRlasso\<close>, and a fit of \<^verbatim>\<open>Rlasso\<close> that iterates or is not
    \<^verbatim>\<open>"nonrobust"\<close>, leaves \<^verbatim>\<open>gamma\<close> at the value given, or at \<open>0.1 / log n\<close> when
    none was given;

  \<^item> a fit of \<^verbatim>\<open>Rlasso\<close> that is \<^verbatim>\<open>"nonrobust"\<close> with \<^verbatim>\<open>max_iter\<close> at most zero computes
    no penalty level and leaves \<^verbatim>\<open>gamma\<close> as it was, unset if it was unset;

  \<^item> a fit of an estimator whose \<^verbatim>\<open>gamma\<close> is set leaves it at that value, so a later
    fit of a fitted estimator does not recompute it.

  A fit that raises returns no estimator in the model; what it leaves in \<^verbatim>\<open>gamma\<close> is
  covered by the statement on the penalty-level calls, the only place of the
  assignment. The statement is for at least two samples: for one sample \<open>log n\<close> is
  zero, a division that numpy evaluates to infinity.
\<close>

theorem gamma_default_is_sticky:
  assumes "1 < nrows X"
  shows "(Rlasso_fit orc self d X y = Inr r \<longrightarrow>
            (gamma (est r) = gamma self
               \<or> gamma self = None \<and> gamma (est r) = Some ((1 / 10) / ln (real (nrows X))))
            \<and> (0 < max_iter self \<or> cov_type self \<noteq> ''nonrobust'' \<longrightarrow>
                 gamma (est r) = Some (case gamma self of
                                         None \<Rightarrow> (1 / 10) / ln (real (nrows X))
                                       | Some g \<Rightarrow> g))
            \<and> (max_iter self \<le> 0 \<and> cov_type self = ''nonrobust'' \<longrightarrow>
                 gamma (est r) = gamma self)
            \<and> (\<forall>g. gamma self = Some g \<longrightarrow> gamma (est r) = Some g)
            \<and> (\<forall>d2 X2 y2 r2. gamma (est r) \<noteq> None
                    \<and> Rlasso_fit orc (est r) d2 X2 y2 = Inr r2 \<longrightarrow>
                  gamma (est r2) = gamma (est r)))
       \<and> (SqrtRlasso_fit orc self d X y = Inr r' \<longrightarrow>
            gamma (est r') = Some (case gamma self of
                                     None \<Rightarrow> (1 / 10) / ln (real (nrows X))
                                   | Some g \<Rightarrow> g)
            \<and> (\<forall>d2 X2 y2 r2. SqrtRlasso_fit orc (est r') d2 X2 y2 = Inr r2 \<longrightarrow>
                  gamma (est r2) = gamma (est r')))
       \<and> (\<not> x_dependent self \<and> 0 < p \<longrightarrow>
            Rlasso_penalty_level orc self d (nrows X) p sigma_hat Xo psi
            = Inr (2 * c self
                     * (case sigma_hat of
                          None \<Rightarrow> 1
                        | Some s \<Rightarrow> if cov_type self = ''nonrobust'' then s else 1)
                     * sqrt (real (nrows X))
                     * norm_ppf orc
                         (1 - (case gamma self of
                                 None \<Rightarrow> (1 / 10) / ln (real (nrows X))
                               | Some g \<Rightarrow> g) / (2 * real p)),
                   self\<lparr>gamma := Some (case gamma self of
                                          None \<Rightarrow> (1 / 10) / ln (real (nrows X))
                                        | Some g \<Rightarrow> g)\<rparr>,
                   d)
            \<and> SqrtRlasso_penalty_level orc self (nrows X) p
            = Inr (c self * sqrt (real (nrows X))
                     * norm_ppf orc
                         (1 - (case gamma self of
                                 None \<Rightarrow> (1 / 10) / ln (real (nrows X))
                               | Some g \<Rightarrow> g) / (2 * real p)),
                   self\<lparr>gamma := Some (case gamma self of
                                          None \<Rightarrow> (1 / 10) / ln (real (nrows X))
                                        | Some g \<Rightarrow> g)\<rparr>)
            \<and> (\<forall>g d2 n2 p2 sigma2 X2 psi2. 0 < p2 \<longrightarrow>
                 Rlasso_penalty_level orc (self\<lparr>gamma := Some g\<rparr>) d2 n2 p2 sigma2 X2 psi2
                 = Inr (2 * c self
                          * (case sigma2 of
                               None \<Rightarrow> 1
                             | Some s \<Rightarrow> if cov_type self = ''nonrobust'' then s else 1)
                          * sqrt (real n2) * norm_ppf orc (1 - g / (2 * real p2)),
                        self\<lparr>gamma := Some g\<rparr>, d2)
                 \<and> SqrtRlasso_penalty_level orc (self\<lparr>gamma := Some g\<rparr>) n2 p2
                 = Inr (c self * sqrt (real n2) * norm_ppf orc (1 - g / (2 * real p2)),
                        self\<lparr>gamma := Some g\<rparr>)))"
proof -
  let ?g = "case gamma self of None \<Rightarrow> (1 / 10) / ln (real (nrows X)) | Some g \<Rightarrow> g"
  have dg: "default_gamma self (nrows X) = self\<lparr>gamma := Some ?g\<rparr>"
    by (simp add: default_gamma_def split: option.splits)
  have dg2: "default_gamma (self\<lparr>gamma := Some g\<rparr>) n2 = self\<lparr>gamma := Some g\<rparr>" for g n2
    by (simp add: default_gamma_def)
  have A: "(gamma (est r) = gamma self
               \<or> gamma self = None \<and> gamma (est r) = Some ((1 / 10) / ln (real (nrows X))))
            \<and> (0 < max_iter self \<or> cov_type self \<noteq> ''nonrobust'' \<longrightarrow>
                 gamma (est r) = Some ?g)
            \<and> (max_iter self \<le> 0 \<and> cov_type self = ''nonrobust'' \<longrightarrow>
                 gamma (est r) = gamma self)
            \<and> (\<forall>g. gamma self = Some g \<longrightarrow> gamma (est r) = Some g)
            \<and> (\<forall>d2 X2 y2 r2. gamma (est r) \<noteq> None
                    \<and> Rlasso_fit orc (est r) d2 X2 y2 = Inr r2 \<longrightarrow>
                  gamma (est r2) = gamma (est r))"
    if fit: "Rlasso_fit orc self d X y = Inr r"
  proof -
    from Rlasso_fit_gamma [OF fit] have
      1: "gamma (est r) = gamma self \<or> gamma (est r) = Some ?g"
      and 2: "0 < max_iter self \<or> cov_type self \<noteq> ''nonrobust'' \<longrightarrow> gamma (est r) = Some ?g"
      by (simp_all add: default_gamma_gamma)
    from 1 have one: "gamma (est r) = gamma self
               \<or> gamma self = None \<and> gamma (est r) = Some ((1 / 10) / ln (real (nrows X)))"
      by (cases "gamma self") auto
    have 3: "gamma (est r2) = gamma (est r)"
      if "gamma (est r) \<noteq> None" "Rlasso_fit orc (est r) d2 X2 y2 = Inr r2" for d2 X2 y2 r2
      using Rlasso_fit_gamma [OF that(2)] that(1)
      by (auto simp: default_gamma_gamma)
    have 4: "max_iter self \<le> 0 \<and> cov_type self = ''nonrobust'' \<longrightarrow> gamma (est r) = gamma self"
      using Rlasso_fit_no_level [OF fit] by blast
    have 5: "\<forall>g. gamma self = Some g \<longrightarrow> gamma (est r) = Some g"
      using 1 by auto
    from one 2 3 4 5 show ?thesis by blast
  qed
  have B: "gamma (est r') = Some ?g
            \<and> (\<forall>d2 X2 y2 r2. SqrtRlasso_fit orc (est r') d2 X2 y2 = Inr r2 \<longrightarrow>
                  gamma (est r2) = gamma (est r'))"
    if fit: "SqrtRlasso_fit orc self d X y = Inr r'"
  proof -
    have 1: "gamma (est r') = Some ?g"
      using SqrtRlasso_fit_gamma [OF fit] by (simp add: default_gamma_gamma)
    have 2: "gamma (est r2) = gamma (est r')"
      if "SqrtRlasso_fit orc (est r') d2 X2 y2 = Inr r2" for d2 X2 y2 r2
      using SqrtRlasso_fit_gamma [OF that] 1 by (simp add: default_gamma_gamma)
    from 1 2 show ?thesis by blast
  qed
  have C: "Rlasso_penalty_level orc self d (nrows X) p sigma_hat Xo psi
            = Inr (2 * c self
                     * (case sigma_hat of
                          None \<Rightarrow> 1
                        | Some s \<Rightarrow> if cov_type self = ''nonrobust'' then s else 1)
                     * sqrt (real (nrows X)) * norm_ppf orc (1 - ?g / (2 * real p)),
                   self\<lparr>gamma := Some ?g\<rparr>, d)
            \<and> SqrtRlasso_penalty_level orc self (nrows X) p
            = Inr (c self * sqrt (real (nrows X)) * norm_ppf orc (1 - ?g / (2 * real p)),
                   self\<lparr>gamma := Some ?g\<rparr>)"
    if "\<not> x_dependent self \<and> 0 < p"
    using that
    by (auto simp: Rlasso_penalty_level_def SqrtRlasso_penalty_level_def Let_def dg
          split: option.splits)
  have D: "Rlasso_penalty_level orc (self\<lparr>gamma := Some g\<rparr>) d2 n2 p2 sigma2 X2 psi2
                 = Inr (2 * c self
                          * (case sigma2 of
                               None \<Rightarrow> 1
                             | Some s \<Rightarrow> if cov_type self = ''nonrobust'' then s else 1)
                          * sqrt (real n2) * norm_ppf orc (1 - g / (2 * real p2)),
                        self\<lparr>gamma := Some g\<rparr>, d2)
                 \<and> SqrtRlasso_penalty_level orc (self\<lparr>gamma := Some g\<rparr>) n2 p2
                 = Inr (c self * sqrt (real n2) * norm_ppf orc (1 - g / (2 * real p2)),
                        self\<lparr>gamma := Some g\<rparr>)"
    if "\<not> x_dependent self" for g d2 n2 p2 sigma2 X2 psi2
    using that
    by (auto simp: Rlasso_penalty_level_def SqrtRlasso_penalty_level_def Let_def dg2
          split: option.splits)
  from A B C D show ?thesis by blast
qed

theorem gamma_default_is_sticky_witness:
  "1 < nrows ex_X \<and> gamma ex_est = None \<and> 0 < max_iter ex_est \<and> \<not> x_dependent ex_est
   \<and> Rlasso_fit ex_oracles ex_est 0 ex_X ex_y = Inr ex_run
   \<and> gamma (est ex_run) = Some ((1 / 10) / ln (real (nrows ex_X)))
   \<and> Rlasso_penalty_level ex_oracles ex_est 0 (nrows ex_X) 2 (Some 4) None None
       = Inr (176 / 5, ex_est\<lparr>gamma := Some ((1 / 10) / ln (real (nrows ex_X)))\<rparr>, 0)
   \<and> Rlasso_penalty_level ex_oracles (ex_est\<lparr>gamma := Some ((1 / 10) / ln 4)\<rparr>) 0 9 2 (Some 5)
       None None
       = Inr (66, ex_est\<lparr>gamma := Some ((1 / 10) / ln 4)\<rparr>, 0)
   \<and> max_iter ex_est0 \<le> 0 \<and> cov_type ex_est0 = ''nonrobust'' \<and> gamma ex_est0 = None
   \<and> Rlasso_fit ex_oracles ex_est0 0 ex_X ex_y = Inr ex_run0
   \<and> gamma (est ex_run0) = None"
proof -
  have n: "1 < nrows ex_X" by (simp add: ex_check_array)
  note t = gamma_default_is_sticky [OF n, where orc = ex_oracles and self = ex_est and d = 0
      and y = ex_y and r = ex_run and p = 2 and sigma_hat = "Some 4" and Xo = None
      and psi = None]
  note u = gamma_default_is_sticky [OF n, where orc = ex_oracles and self = ex_est0 and d = 0
      and y = ex_y and r = ex_run0]
  from t ex_fit
  have g: "gamma (est ex_run) = Some ((1 / 10) / ln (real (nrows ex_X)))"
    by (simp add: ex_est_fields)
  from t have l: "Rlasso_penalty_level ex_oracles ex_est 0 (nrows ex_X) 2 (Some 4) None None
       = Inr (176 / 5, ex_est\<lparr>gamma := Some ((1 / 10) / ln (real (nrows ex_X)))\<rparr>, 0)"
    by (simp add: ex_est_fields ex_check_array ex_oracles_def)
  from t have "\<forall>g d2 n2 p2 sigma2 X2 psi2. 0 < p2 \<longrightarrow>
                 Rlasso_penalty_level ex_oracles (ex_est\<lparr>gamma := Some g\<rparr>) d2 n2 p2 sigma2 X2 psi2
                 = Inr (2 * c ex_est
                          * (case sigma2 of
                               None \<Rightarrow> 1
                             | Some s \<Rightarrow> if cov_type ex_est = ''nonrobust'' then s else 1)
                          * sqrt (real n2) * norm_ppf ex_oracles (1 - g / (2 * real p2)),
                        ex_est\<lparr>gamma := Some g\<rparr>, d2)"
    by (simp add: ex_est_fields)
  then have "Rlasso_penalty_level ex_oracles (ex_est\<lparr>gamma := Some ((1 / 10) / ln 4)\<rparr>) 0 9 2
                (Some 5) None None
       = Inr (2 * c ex_est
                * (case Some 5 of
                     None \<Rightarrow> 1
                   | Some s \<Rightarrow> if cov_type ex_est = ''nonrobust'' then s else 1)
                * sqrt (real 9) * norm_ppf ex_oracles (1 - ((1 / 10) / ln 4) / (2 * real 2)),
              ex_est\<lparr>gamma := Some ((1 / 10) / ln 4)\<rparr>, 0)"
    by simp
  then have l2: "Rlasso_penalty_level ex_oracles (ex_est\<lparr>gamma := Some ((1 / 10) / ln 4)\<rparr>) 0 9 2
                (Some 5) None None
       = Inr (66, ex_est\<lparr>gamma := Some ((1 / 10) / ln 4)\<rparr>, 0)"
    by (simp add: ex_est_fields ex_oracles_def)
  from u ex_fit0 have g0: "gamma (est ex_run0) = None"
    by (simp add: ex_est0_fields ex_est0_gamma)
  from n g l l2 g0 ex_fit ex_fit0 show ?thesis
    by (simp add: ex_est_fields ex_est0_fields ex_est0_gamma)
qed

text \<open>
  On the example (four samples), the fit of \<^verbatim>\<open>Rlasso()\<close> leaves
  \<open>gamma = 0.1 / log 4\<close>, which is not \<open>0.1 / sqrt 4\<close>.
\<close>

theorem standard_gamma_is_not_sqrt:
  "gamma ex_est = None \<and> nrows ex_X = 4
   \<and> Rlasso_fit ex_oracles ex_est 0 ex_X ex_y = Inr ex_run
   \<and> gamma (est ex_run) = Some ((1 / 10) / ln 4)
   \<and> gamma (est ex_run) \<noteq> Some ((1 / 10) / sqrt 4)"
proof -
  have "(1 / 10) / ln (4::real) \<noteq> (1 / 10) / sqrt 4"
    using ln4_less_2 by simp
  then show ?thesis
    by (simp add: ex_est_fields ex_check_array ex_fit) (simp add: ex_run_def)
qed

subsection \<open>The solver's status\<close>

text \<open>
  C5. The specification states that a solve that ends in a status other than optimal surfaces as a
  distinguishable solver-failure error. The module never reads the status. When the
  solver raises, its exception passes through; when it returns with no value (what
  cvxpy leaves for an infeasible or unbounded problem), \<^verbatim>\<open>np.abs(beta)\<close> raises a
  \<^verbatim>\<open>TypeError\<close>; when it returns with a value, the value is rounded and used as if the
  status were optimal. So \<^verbatim>\<open>fit\<close>, in both classes, gives the same result for a solver
  and for the same solver with every status replaced by optimal.
\<close>

theorem solver_status_never_read:
  "Rlasso_fit (orc\<lparr>cvx_solve := \<lambda>f p. forget_status (cvx_solve orc f p)\<rparr>) self d X y
     = Rlasso_fit orc self d X y
   \<and> SqrtRlasso_fit (orc\<lparr>cvx_solve := \<lambda>f p. forget_status (cvx_solve orc f p)\<rparr>) self d X y
     = SqrtRlasso_fit orc self d X y
   \<and> RlassoBase_cvxpy_solve orc self criterion X y lambd psi n
     = (case cvx_solve orc (\<lambda>beta. criterion X y beta lambd psi n) (ncols X) of
          Raises e \<Rightarrow> Inl e
        | Returns status None \<Rightarrow> Inl TypeError
        | Returns status (Some v) \<Rightarrow>
            RlassoBase_cvxpy_solve (orc\<lparr>cvx_solve := \<lambda>f p. Returns Optimal (Some v)\<rparr>)
              self criterion X y lambd psi n)"
  by (simp add: Rlasso_fit_def SqrtRlasso_fit_def Rlasso_algorithm_forget
        SqrtRlasso_algorithm_forget RlassoBase_cvxpy_solve_def solve_and_round_def
        post_ols_solver split: solver_outcome.splits option.splits)

theorem solver_status_never_read_witness:
  "Rlasso_fit
     (ex_oracles\<lparr>cvx_solve := \<lambda>f p. Returns Infeasible (Some [8 - (f [1, 0] - 74) / 2, 0])\<rparr>)
     ex_est 0 ex_X ex_y = Inr ex_run"
proof -
  let ?o = "ex_oracles\<lparr>cvx_solve :=
              \<lambda>f p. Returns Infeasible (Some [8 - (f [1, 0] - 74) / 2, 0])\<rparr>"
  have "Rlasso_fit (?o\<lparr>cvx_solve := \<lambda>f p. forget_status (cvx_solve ?o f p)\<rparr>) ex_est 0 ex_X ex_y
        = Rlasso_fit ?o ex_est 0 ex_X ex_y"
    by (rule solver_status_never_read [THEN conjunct1])
  then show ?thesis
    by (simp add: ex_optimal_self ex_fit)
qed

text \<open>
  On the example, with a solver that reports the problem infeasible and leaves no
  value, \<^verbatim>\<open>fit\<close> raises the \<^verbatim>\<open>TypeError\<close> of the rounding step, which is not a solver
  error.
\<close>

theorem infeasible_solve_raises_type_error:
  "Rlasso_fit (ex_oracles\<lparr>cvx_solve := \<lambda>f p. Returns Infeasible None\<rparr>) ex_est 0 ex_X ex_y
     = Inl TypeError
   \<and> TypeError \<noteq> SolverError"
  by (simp add: ex_infeasible_fit)

subsection \<open>The x-dependent penalty level of the robust case\<close>

text \<open>
  C6. The specification states that \<^verbatim>\<open>Rlasso._penalty_level\<close> with \<^verbatim>\<open>cov_type == "robust"\<close> and
  \<^verbatim>\<open>x_dependent\<close> set raises a not-implemented error. It does never return, but it
  never raises \<^verbatim>\<open>NotImplementedError\<close> either: with a design matrix and loadings
  whose shapes fit it reaches the \<^verbatim>\<open>print\<close> of the unassigned \<^verbatim>\<open>lambd\<close>
  (\<^verbatim>\<open>UnboundLocalError\<close>), and before that it raises the \<^verbatim>\<open>TypeError\<close> or
  \<^verbatim>\<open>ValueError\<close> of \<^verbatim>\<open>np.empty(self.n_sim)\<close> and \<^verbatim>\<open>X @ psi\<close>.
  \<^verbatim>\<open>SqrtRlasso._penalty_level\<close> does raise \<^verbatim>\<open>NotImplementedError\<close> when
  \<^verbatim>\<open>x_dependent\<close> is set.
\<close>

theorem robust_x_dependent_level_unbound:
  assumes "cov_type self = ''robust''" and "x_dependent self"
  shows "(\<exists>e. Rlasso_penalty_level orc self d n p sigma_hat X psi = Inl e
              \<and> e \<noteq> NotImplementedError)
       \<and> (0 \<le> n_sim self \<and> X = Some Xm \<and> psi = Some P \<and> ncols Xm = nrows P \<longrightarrow>
            Rlasso_penalty_level orc self d n p sigma_hat X psi = Inl UnboundLocalError)
       \<and> SqrtRlasso_penalty_level orc self n p = Inl NotImplementedError"
  using assms
  by (auto simp: Rlasso_penalty_level_def SqrtRlasso_penalty_level_def Let_def
        default_gamma_def matmul_opt_def split: option.splits sum.splits)

theorem robust_x_dependent_level_unbound_witness:
  "Rlasso_penalty_level ex_oracles
      (init_attributes [(''cov_type'', PyStr ''robust''), (''x_dependent'', PyBool True)])
      0 2 1 None (Some [[1], [1]]) (Some [[1]]) = Inl UnboundLocalError"
proof -
  let ?e = "init_attributes [(''cov_type'', PyStr ''robust''), (''x_dependent'', PyBool True)]"
  have h: "cov_type ?e = ''robust''" "x_dependent ?e" "0 \<le> n_sim ?e"
    by (simp_all add: init_attributes_def kw_str_def kw_flag_def kw_int_def)
  have s: "ncols [[1], [1::real]] = nrows [[1::real]]"
    by (simp add: ncols_def nrows_def)
  from robust_x_dependent_level_unbound [OF h(1) h(2), where orc = ex_oracles and d = 0 and n = 2
      and p = 1 and sigma_hat = None and X = "Some [[1], [1]]" and Xm = "[[1], [1]]"
      and psi = "Some [[1]]" and P = "[[1]]"] h(3) s
  show ?thesis by simp
qed

subsection \<open>Robust loadings without residuals\<close>

text \<open>
  C7. The specification states that the standard variant never substitutes the nonrobust formula
  when \<^verbatim>\<open>cov_type\<close> is \<^verbatim>\<open>"robust"\<close>. With the residuals absent
  (\<^verbatim>\<open>resid=None\<close>, the default of the signature) \<^verbatim>\<open>Rlasso._penalty_loadings\<close> returns
  exactly the nonrobust loadings \<^verbatim>\<open>sqrt(mean(X**2, axis=0))\<close>, where
  \<^verbatim>\<open>SqrtRlasso._penalty_loadings\<close> raises \<^verbatim>\<open>NotImplementedError\<close> on the same call.
\<close>

theorem robust_loadings_without_residuals:
  assumes "cov_type self = ''robust''"
  shows "Rlasso_penalty_loadings self X n None = Inr (diag (nonrobust_psi X))
       \<and> SqrtRlasso_penalty_loadings self X n None = Inl NotImplementedError"
  using assms by (simp add: Rlasso_penalty_loadings_def SqrtRlasso_penalty_loadings_def)

theorem robust_loadings_without_residuals_witness:
  "Rlasso_penalty_loadings (init_attributes [(''cov_type'', PyStr ''robust'')])
      [[2], [2]] 2 None = Inr [[2]]
   \<and> SqrtRlasso_penalty_loadings (init_attributes [(''cov_type'', PyStr ''robust'')])
      [[2], [2]] 2 None = Inl NotImplementedError"
proof -
  have h: "cov_type (init_attributes [(''cov_type'', PyStr ''robust'')]) = ''robust''"
    by (simp add: init_attributes_def kw_str_def)
  have "diag (nonrobust_psi [[2], [2]]) = [[2]]"
    by (simp add: diag_def nonrobust_psi_def mean_axis0_def sq_mat_def sq_vec_def mean_def)
  with robust_loadings_without_residuals [OF h, of "[[2], [2]]" 2] show ?thesis by simp
qed

subsection \<open>Cluster-robust loadings\<close>

text \<open>
  C8. With \<^verbatim>\<open>cov_type == "cluster"\<close> both \<^verbatim>\<open>Rlasso._penalty_loadings\<close> and
  \<^verbatim>\<open>SqrtRlasso._penalty_loadings\<close> raise \<^verbatim>\<open>NotImplementedError\<close>, for every design
  matrix, every sample size and every residual argument (absent or present); neither
  returns a loadings matrix.
\<close>

theorem cluster_loadings_not_implemented:
  assumes "cov_type self = ''cluster''"
  shows "Rlasso_penalty_loadings self X n resid = Inl NotImplementedError
       \<and> SqrtRlasso_penalty_loadings self X n resid = Inl NotImplementedError"
  using assms by (simp add: Rlasso_penalty_loadings_def SqrtRlasso_penalty_loadings_def)

theorem cluster_loadings_not_implemented_witness:
  "cov_type (init_attributes [(''cov_type'', PyStr ''cluster'')]) = ''cluster''
   \<and> Rlasso_penalty_loadings (init_attributes [(''cov_type'', PyStr ''cluster'')])
         [[1, 2], [3, 4]] 2 (Some [1, 1]) = Inl NotImplementedError
   \<and> SqrtRlasso_penalty_loadings (init_attributes [(''cov_type'', PyStr ''cluster'')])
         [[1, 2], [3, 4]] 2 (Some [1, 1]) = Inl NotImplementedError"
proof -
  have h: "cov_type (init_attributes [(''cov_type'', PyStr ''cluster'')]) = ''cluster''"
    by (simp add: init_attributes_def kw_str_def)
  from cluster_loadings_not_implemented [OF h, of "[[1, 2], [3, 4]]" 2 "Some [1, 1]"] h
  show ?thesis by simp
qed

subsection \<open>Rounding of small coefficients\<close>

text \<open>
  C9. Whenever a call of \<^verbatim>\<open>_cvxpy_solve\<close> returns, the solver has returned a value, and
  the vector the call held after the rounding, and before the post-lasso refit (if
  any), is that value with every entry smaller in absolute value than \<^verbatim>\<open>zero_tol\<close>
  replaced by exactly zero and every other entry unchanged. So it has no entry that is
  nonzero and smaller in absolute value than \<^verbatim>\<open>zero_tol\<close>. That vector is what the
  call returns when \<^verbatim>\<open>post\<close> is off, and what the refit starts from when it is on.
\<close>

theorem rounded_coefficients_exactly_zero:
  assumes "RlassoBase_cvxpy_solve orc self criterion X y lambd psi n = Inr (b, ev)"
  shows "\<exists>status v beta.
           cvx_solve orc (\<lambda>beta. criterion X y beta lambd psi n) (ncols X)
             = Returns status (Some v)
           \<and> solve_and_round orc self criterion X y lambd psi n = Inr beta
           \<and> length beta = length v
           \<and> (\<forall>j < length v. beta ! j = (if \<bar>v ! j\<bar> < zero_tol self then 0 else v ! j))
           \<and> (\<forall>j < length beta. \<bar>beta ! j\<bar> < zero_tol self \<longrightarrow> beta ! j = 0)
           \<and> (if post self then post_ols orc beta X y = Inr b else b = beta)"
proof -
  from assms obtain beta where
    sr: "solve_and_round orc self criterion X y lambd psi n = Inr beta"
    and fin: "if post self then post_ols orc beta X y = Inr b else b = beta"
    unfolding RlassoBase_cvxpy_solve_def by (auto split: sum.splits if_splits)
  from sr obtain status v where
    cv: "cvx_solve orc (\<lambda>b. criterion X y b lambd psi n) (ncols X) = Returns status (Some v)"
    and beta: "beta = hard_threshold (zero_tol self) v"
    by (rule solve_and_round_cases)
  have l: "length beta = length v" by (simp add: beta length_hard_threshold)
  have p: "\<forall>j < length v. beta ! j = (if \<bar>v ! j\<bar> < zero_tol self then 0 else v ! j)"
    by (simp add: beta hard_threshold_nth)
  have z: "\<forall>j < length beta. \<bar>beta ! j\<bar> < zero_tol self \<longrightarrow> beta ! j = 0"
    unfolding beta using hard_threshold_small by blast
  from cv sr l p z fin show ?thesis by blast
qed

theorem rounded_coefficients_exactly_zero_witness:
  "cvx_solve ex_tiny_oracles
      (\<lambda>beta. Rlasso_criterion_function ex_X ex_y beta 44 [[1, 0], [0, 1]] 4) (ncols ex_X)
     = Returns Optimal (Some [5 / 2, - (1 / 100000)])
   \<and> RlassoBase_cvxpy_solve ex_tiny_oracles ex_est_nopost Rlasso_criterion_function ex_X ex_y 44
      [[1, 0], [0, 1]] 4 = Inr ([5 / 2, 0], [ConvexSolve])
   \<and> (\<exists>beta. solve_and_round ex_tiny_oracles ex_est_nopost Rlasso_criterion_function ex_X ex_y
                44 [[1, 0], [0, 1]] 4 = Inr beta
            \<and> length beta = 2
            \<and> beta ! 0 = 5 / 2 \<and> beta ! 1 = 0 \<and> [5 / 2, 0] = beta)"
proof -
  have c: "cvx_solve ex_tiny_oracles
      (\<lambda>beta. Rlasso_criterion_function ex_X ex_y beta 44 [[1, 0], [0, 1]] 4) (ncols ex_X)
     = Returns Optimal (Some [5 / 2, - (1 / 100000)])"
    by (simp add: ex_tiny_oracles_def)
  from rounded_coefficients_exactly_zero [OF ex_tiny_solve] obtain status v beta where
    cv: "cvx_solve ex_tiny_oracles
          (\<lambda>beta. Rlasso_criterion_function ex_X ex_y beta 44 [[1, 0], [0, 1]] 4) (ncols ex_X)
         = Returns status (Some v)"
    and sr: "solve_and_round ex_tiny_oracles ex_est_nopost Rlasso_criterion_function ex_X ex_y
                44 [[1, 0], [0, 1]] 4 = Inr beta"
    and l: "length beta = length v"
    and p: "\<forall>j < length v. beta ! j = (if \<bar>v ! j\<bar> < zero_tol ex_est_nopost then 0 else v ! j)"
    and f: "if post ex_est_nopost
            then post_ols ex_tiny_oracles beta ex_X ex_y = Inr [5 / 2, 0]
            else [5 / 2, 0] = beta"
    by blast
  from cv c have v: "v = [5 / 2, - (1 / 100000)]" by simp
  from l v have l2: "length beta = 2" by simp
  from p v have "beta ! 0 = 5 / 2" "beta ! 1 = 0"
    by (simp_all add: ex_est_nopost_fields)
  with c ex_tiny_solve sr l2 f show ?thesis
    by (auto simp: ex_est_nopost_fields)
qed

subsection \<open>A fit without iterations\<close>

text \<open>
  C10. The specification states that with \<^verbatim>\<open>max_iter = 0\<close> the fit of \<^verbatim>\<open>Rlasso\<close> always completes,
  runs no solve and stores the pilot coefficients, a vector of length \<^verbatim>\<open>n_corr\<close>. With
  \<^verbatim>\<open>max_iter \<le> 0\<close> the loop body never runs: a fit that returns has logged no solve,
  \<^verbatim>\<open>coef_\<close> is the coefficient vector of the pilot fit on the centred data, and in the
  \<^verbatim>\<open>"nonrobust"\<close> case \<^verbatim>\<open>lambd_\<close> is \<open>0\<close>. The fit does return in the \<^verbatim>\<open>"nonrobust"\<close>
  case whenever the input passes \<^verbatim>\<open>check_X_y\<close> and the pilot fit succeeds (it fails
  when \<^verbatim>\<open>pearsonr\<close> or \<^verbatim>\<open>np.linalg.inv\<close> raises). The length of \<^verbatim>\<open>coef_\<close> is that of
  \<^verbatim>\<open>np.argsort(r)[-n_corr:]\<close>: the smaller of \<^verbatim>\<open>n_corr\<close> and \<open>p\<close> for a positive
  \<^verbatim>\<open>n_corr\<close>, so \<^verbatim>\<open>n_corr\<close> only when there are at least that many features.
\<close>

theorem no_iteration_keeps_pilot_fit:
  assumes "max_iter self \<le> 0"
  shows "(Rlasso_fit orc self d X y = Inr r \<longrightarrow>
            events r = [] \<and> n_iter r = 0
            \<and> (\<exists>beta0 resid0.
                  pilot_fit orc self (if fit_intercept self then center_columns X else X)
                    (if fit_intercept self then center y else y) = Inr (beta0, resid0)
                  \<and> coef_attr (est r) = Some beta0
                  \<and> ((\<forall>A B. linalg_inv orc A = Inr B \<longrightarrow> length B = length A) \<longrightarrow>
                       length beta0
                       = (if 0 < n_corr self then min (nat (n_corr self)) (ncols X)
                          else ncols X - nat (- n_corr self))))
            \<and> (cov_type self = ''nonrobust'' \<longrightarrow> lambd_attr (est r) = Some 0))
       \<and> (cov_type self = ''nonrobust'' \<and> check_X_y X y = Inr (X, y)
            \<and> pilot_fit orc self (if fit_intercept self then center_columns X else X)
                 (if fit_intercept self then center y else y) = Inr (b0, r0) \<longrightarrow>
            Rlasso_fit orc self d X y
            = Inr \<lparr>est = self\<lparr>coef_attr := Some b0, lambd_attr := Some 0,
                      psi_attr := Some (diag (nonrobust_psi
                         (if fit_intercept self then center_columns X else X)))\<rparr>,
                   draws = d, events = [], n_iter = 0\<rparr>)"
proof -
  let ?X = "if fit_intercept self then center_columns X else X"
  let ?y = "if fit_intercept self then center y else y"
  have A: "events r = [] \<and> n_iter r = 0
            \<and> (\<exists>beta0 resid0.
                  pilot_fit orc self ?X ?y = Inr (beta0, resid0)
                  \<and> coef_attr (est r) = Some beta0
                  \<and> ((\<forall>A B. linalg_inv orc A = Inr B \<longrightarrow> length B = length A) \<longrightarrow>
                       length beta0
                       = (if 0 < n_corr self then min (nat (n_corr self)) (ncols X)
                          else ncols X - nat (- n_corr self))))
            \<and> (cov_type self = ''nonrobust'' \<longrightarrow> lambd_attr (est r) = Some 0)"
    if fit: "Rlasso_fit orc self d X y = Inr r"
  proof -
    from fit [unfolded Rlasso_fit_def] obtain beta lambd psi r1 where
      c: "check_X_y X y = Inr (X, y)"
      and a: "Rlasso_rlasso_algorithm orc self d ?X ?y = Inr ((beta, lambd, psi), r1)"
      and r: "r = r1\<lparr>est := (est r1)\<lparr>coef_attr := Some beta, lambd_attr := Some lambd,
                              psi_attr := Some psi\<rparr>\<rparr>"
      by (rule RlassoBase_fit_cases)
    from a obtain resid0 where
      p: "pilot_fit orc self ?X ?y = Inr (beta, resid0)"
      and ev: "events r1 = []" "n_iter r1 = 0"
      and l: "cov_type self = ''nonrobust'' \<longrightarrow> lambd = 0"
      unfolding Rlasso_algorithm_no_iteration [OF assms]
      by (auto split: sum.splits prod.splits if_splits)
    from check_X_y_Inr [OF c] have ne: "X \<noteq> []" by simp
    then have ne': "?X \<noteq> []" by (simp add: center_columns_def)
    have nc: "ncols ?X = ncols X" by (simp add: ncols_center_columns)
    have len: "length beta
               = (if 0 < n_corr self then min (nat (n_corr self)) (ncols X)
                  else ncols X - nat (- n_corr self))"
      if "\<forall>A B. linalg_inv orc A = Inr B \<longrightarrow> length B = length A"
      using pilot_fit_length [OF p ne' that] unfolding nc .
    from p ev l len show ?thesis by (simp add: r)
  qed
  have B: "Rlasso_fit orc self d X y
            = Inr \<lparr>est = self\<lparr>coef_attr := Some b0, lambd_attr := Some 0,
                      psi_attr := Some (diag (nonrobust_psi ?X))\<rparr>,
                   draws = d, events = [], n_iter = 0\<rparr>"
    if "cov_type self = ''nonrobust''" "check_X_y X y = Inr (X, y)"
       "pilot_fit orc self ?X ?y = Inr (b0, r0)"
    using that
    by (simp add: Rlasso_fit_def RlassoBase_fit_def Rlasso_algorithm_no_iteration [OF assms])
  from A B show ?thesis by blast
qed

theorem no_iteration_keeps_pilot_fit_witness:
  "max_iter ex_est0 \<le> 0
   \<and> Rlasso_fit ex_oracles ex_est0 0 ex_X ex_y = Inr ex_run0
   \<and> events ex_run0 = [] \<and> n_iter ex_run0 = 0
   \<and> coef_attr (est ex_run0) = Some [3, 8]
   \<and> lambd_attr (est ex_run0) = Some 0
   \<and> length [3, 8::real] = min (nat (n_corr ex_est0)) (ncols ex_X)"
proof -
  have m: "max_iter ex_est0 \<le> 0" by (simp add: ex_est0_fields)
  note t = no_iteration_keeps_pilot_fit [OF m, where orc = ex_oracles and d = 0
      and X = ex_X and y = ex_y and r = ex_run0 and ?b0.0 = "[3, 8]"
      and ?r0.0 = "[4, -4, -4, 4]"]
  have p: "pilot_fit ex_oracles ex_est0
             (if fit_intercept ex_est0 then center_columns ex_X else ex_X)
             (if fit_intercept ex_est0 then center ex_y else ex_y) = Inr ([3, 8], [4, -4, -4, 4])"
    by (simp add: ex_est0_fields ex_center ex_pilot)
  from t ex_est0_fields(2) ex_check p
  have f: "Rlasso_fit ex_oracles ex_est0 0 ex_X ex_y = Inr ex_run0"
    by (simp add: ex_est0_fields ex_center ex_nonrobust_psi ex_run0_def)
  from t f p ex_inv_shape
  have "events ex_run0 = [] \<and> n_iter ex_run0 = 0 \<and> coef_attr (est ex_run0) = Some [3, 8]
        \<and> lambd_attr (est ex_run0) = Some 0
        \<and> length [3, 8::real] = min (nat (n_corr ex_est0)) (ncols ex_X)"
    by (auto simp: ex_est0_fields)
  with m f show ?thesis by simp
qed

text \<open>
  On the example, which has two features, the fit of \<^verbatim>\<open>Rlasso(max_iter=0)\<close> with the
  default \<^verbatim>\<open>n_corr = 5\<close> stores two coefficients, not five.
\<close>

theorem pilot_coefficients_fewer_than_n_corr:
  "max_iter ex_est0 = 0 \<and> n_corr ex_est0 = 5
   \<and> Rlasso_fit ex_oracles ex_est0 0 ex_X ex_y = Inr ex_run0
   \<and> coef_attr (est ex_run0) = Some [3, 8]
   \<and> int (length [3, 8::real]) \<noteq> n_corr ex_est0"
  by (simp add: ex_est0_fields ex_fit0) (simp add: ex_run0_def)

end
